theory Spec2Isabelle
  imports Complex_Main "HOL-Library.Sublist"
begin

section \<open>PathAIA dataset management: a shallow embedding of \<open>pathaia/util/management.py\<close>\<close>

text \<open>
  The module walks a project folder, looks up a slide file and a patch table for every
  slide entry, and joins the rows of the table at one pyramid level with their labels.
  The embedding follows the Python text function by function:
  \<^item> exceptions are values of the datatype \<open>error\<close>, one constructor per exception class
    of the module, carrying the message built by \<open>str.format\<close>; \<open>KeyError\<close> is the
    exception of pandas for a missing column, and \<open>ExternalError\<close> stands for any
    exception of \<open>pd.read_csv\<close>;
  \<^item> the operating system and pandas are a record \<open>filesystem\<close> of the four queries the
    module makes (\<open>os.path.isdir\<close>, \<open>os.path.exists\<close>, \<open>os.listdir\<close>, \<open>pd.read_csv\<close>),
    a snapshot that does not change during a call; the queries on directories do not fail;
  \<^item> a data frame carries the dtype of every column, and \<open>DataFrame.iterrows\<close> hands out
    every row converted to the one dtype pandas finds for all the columns;
  \<^item> a generator is the list of the items it yields together with the exception that
    ends it, if any: the consumer sees the items first, then the exception;
  \<^item> \<open>warnings.warn\<close> appends to a list of messages, which survives an exception; what
    the warning filters of the host do with a message is outside the model;
  \<^item> paths are POSIX paths, strings are lists of characters.
\<close>

subsection \<open>Exceptions\<close>

datatype error =
    LevelNotFoundError string
  | EmptyProjectError string
  | SlideNotFoundError string
  | PatchesNotFoundError string
  | UnknownColumnError string
  | KeyError string
  | ExternalError string

text \<open>
  \<open>str(e)\<close>: the message an exception of the module is built from; for \<open>KeyError\<close> the
  key between quotes.
\<close>

fun str :: "error \<Rightarrow> string" where
  "str (LevelNotFoundError m) = m"
| "str (EmptyProjectError m) = m"
| "str (SlideNotFoundError m) = m"
| "str (PatchesNotFoundError m) = m"
| "str (UnknownColumnError m) = m"
| "str (KeyError m) = CHR 0x27 # m @ [CHR 0x27]"
| "str (ExternalError m) = m"

type_synonym 'a generator = "'a list \<times> error option"

subsection \<open>Python strings and \<open>os.path\<close>\<close>

definition startswith :: "string \<Rightarrow> string \<Rightarrow> bool" where
  "startswith s pre = prefix pre s"

definition endswith :: "string \<Rightarrow> string \<Rightarrow> bool" where
  "endswith s suf = suffix suf s"

text \<open>\<open>sub in s\<close> on Python strings: \<open>sub\<close> occurs in \<open>s\<close> as a contiguous block.\<close>

definition str_in :: "string \<Rightarrow> string \<Rightarrow> bool" where
  "str_in sub s = sublist sub s"

text \<open>\<open>posixpath.join\<close> with two components.\<close>

definition os_path_join :: "string \<Rightarrow> string \<Rightarrow> string" where
  "os_path_join a b =
     (if startswith b ''/'' then b
      else if a = [] \<or> endswith a ''/'' then a @ b
      else a @ ''/'' @ b)"

text \<open>\<open>p.rfind(c)\<close> for a one-character \<open>c\<close>: the last index of \<open>c\<close>, or \<open>-1\<close>.\<close>

fun rfind_loop :: "char \<Rightarrow> string \<Rightarrow> int \<Rightarrow> int \<Rightarrow> int" where
  "rfind_loop c [] i found = found"
| "rfind_loop c (d # ds) i found = rfind_loop c ds (i + 1) (if d = c then i else found)"

definition rfind :: "string \<Rightarrow> char \<Rightarrow> int" where
  "rfind p c = rfind_loop c p 0 (- 1)"

text \<open>
  \<open>posixpath.splitext\<close>, as \<open>genericpath._splitext\<close> computes it: the extension starts at
  the last dot after the last separator, unless only dots precede it in the file name.
\<close>

function splitext_loop :: "string \<Rightarrow> int \<Rightarrow> int \<Rightarrow> string \<times> string" where
  "splitext_loop p filenameIndex dotIndex =
     (if filenameIndex < dotIndex then
        (if take 1 (drop (nat filenameIndex) p) \<noteq> ''.''
         then (take (nat dotIndex) p, drop (nat dotIndex) p)
         else splitext_loop p (filenameIndex + 1) dotIndex)
      else (p, []))"
  by pat_completeness auto
termination
  by (relation "measure (\<lambda>(p, filenameIndex, dotIndex). nat (dotIndex - filenameIndex))") auto

declare splitext_loop.simps [simp del]

definition os_path_splitext :: "string \<Rightarrow> string \<times> string" where
  "os_path_splitext p =
     (let sepIndex = rfind p (CHR ''/'');
          dotIndex = rfind p (CHR ''.'')
      in if dotIndex > sepIndex then splitext_loop p (sepIndex + 1) dotIndex
         else (p, []))"

subsection \<open>The file system and the table reader\<close>

text \<open>
  The values of a data frame read by \<open>pd.read_csv\<close>: an integer (of an \<open>int64\<close> or
  \<open>uint64\<close> column, or a Python integer), a finite float by its value, an infinity by its
  sign, not-a-number (an empty field), a boolean, a string. Every column has one of five
  dtypes. Nothing below needs the cells of a column to be of the kind of its dtype.
\<close>

datatype cell =
    IntCell int
  | FloatCell rat
  | InfCell bool
  | NaNCell
  | BoolCell bool
  | StrCell string

datatype dtype = Int64 | UInt64 | Float64 | Bool | Object

text \<open>
  A data frame has table-wide column labels, each with its dtype; a row maps a column
  label to its cell, and only the labels in \<open>columns\<close> are ever read.
\<close>

record dataframe =
  columns :: "string list"
  dtypes :: "string \<Rightarrow> dtype"
  rows :: "(string \<Rightarrow> cell) list"

record filesystem =
  os_path_isdir :: "string \<Rightarrow> bool"
  os_path_exists :: "string \<Rightarrow> bool"
  os_listdir :: "string \<Rightarrow> string list"
  pd_read_csv :: "string \<Rightarrow> dataframe option"

subsection \<open>The folder resolvers\<close>

definition get_patch_csv_from_patch_folder :: "filesystem \<Rightarrow> string \<Rightarrow> error + string" where
  "get_patch_csv_from_patch_folder fs patch_folder =
     (if os_path_isdir fs patch_folder then
        (let patch_file = os_path_join patch_folder ''patches.csv'' in
         if os_path_exists fs patch_file then Inr patch_file
         else Inl (PatchesNotFoundError
                (''Could not find extracted patches for the slide: '' @ patch_folder)))
      else Inl (SlideNotFoundError
             (''Could not find a patch folder at: '' @ patch_folder @ ''!!!'')))"

text \<open>The inner loop of the walker: \<open>keep\<close> starts as \<open>True\<close> and every exclude term is tried.\<close>

fun exclude_loop :: "string list \<Rightarrow> string \<Rightarrow> bool \<Rightarrow> bool" where
  "exclude_loop [] name keep = keep"
| "exclude_loop (ex # exclude) name keep =
     exclude_loop exclude name (if str_in ex name then False else keep)"

fun walk_loop :: "filesystem \<Rightarrow> string \<Rightarrow> string list \<Rightarrow> string list \<Rightarrow> (string \<times> string) list" where
  "walk_loop fs project_folder exclude [] = []"
| "walk_loop fs project_folder exclude (name # names) =
     (if exclude_loop exclude name True then
        (if os_path_isdir fs (os_path_join project_folder name)
         then (name, os_path_join project_folder name) # walk_loop fs project_folder exclude names
         else walk_loop fs project_folder exclude names)
      else walk_loop fs project_folder exclude names)"

definition get_patch_folders_in_project ::
  "filesystem \<Rightarrow> string \<Rightarrow> string list \<Rightarrow> (string \<times> string) generator" where
  "get_patch_folders_in_project fs project_folder exclude =
     (if \<not> os_path_isdir fs project_folder then
        ([], Some (EmptyProjectError (''Did not find any project at: '' @ project_folder)))
      else (walk_loop fs project_folder exclude (os_listdir fs project_folder), None))"

definition default_exclude :: "string list" where
  "default_exclude = [''annotation'']"

fun slide_loop :: "string \<Rightarrow> string \<Rightarrow> string list \<Rightarrow> string option" where
  "slide_loop slide_folder slide_name [] = None"
| "slide_loop slide_folder slide_name (name # names) =
     (if endswith name ''.mrxs'' \<and> \<not> startswith name ''.'' then
        (if slide_name = fst (os_path_splitext name)
         then Some (os_path_join slide_folder name)
         else slide_loop slide_folder slide_name names)
      else slide_loop slide_folder slide_name names)"

definition get_slide_file :: "filesystem \<Rightarrow> string \<Rightarrow> string \<Rightarrow> error + string" where
  "get_slide_file fs slide_folder slide_name =
     (if \<not> os_path_isdir fs slide_folder then
        Inl (SlideNotFoundError (''Could not find a slide folder at: '' @ slide_folder @ ''!!!''))
      else
        (case slide_loop slide_folder slide_name (os_listdir fs slide_folder) of
           Some path \<Rightarrow> Inr path
         | None \<Rightarrow> Inl (SlideNotFoundError
              (''Could not find an mrxs slide file for: '' @ slide_name @ '' in ''
                 @ slide_folder @ ''!!!''))))"

subsection \<open>Numbers in pandas\<close>

text \<open>\<open>n.bit_length()\<close> of a natural number.\<close>

fun bit_length :: "nat \<Rightarrow> nat" where
  "bit_length n = (if n = 0 then 0 else Suc (bit_length (n div 2)))"

declare bit_length.simps [simp del]

text \<open>
  The float64 an integer is converted to, as an integer: the integer itself when 53 bits
  hold it, else the nearest multiple of the power of two that leaves 53 bits, a tie going
  to the even one. (Every integer of an \<open>int64\<close> or \<open>uint64\<close> column is in the range of
  float64.)
\<close>

definition float64_of_int :: "int \<Rightarrow> int" where
  "float64_of_int n =
     (let k = bit_length (nat \<bar>n\<bar>) in
      if k \<le> 53 then n
      else (let s = k - 53;
                q = \<bar>n\<bar> div 2 ^ s;
                r = \<bar>n\<bar> mod 2 ^ s;
                half = 2 ^ (s - 1)
            in sgn n * ((if r > half \<or> (r = half \<and> odd q) then q + 1 else q) * 2 ^ s)))"



text \<open>
  One element of \<open>series == level\<close> for an integer \<open>level\<close>: integers compare exactly, a
  boolean counts as 0 or 1, a string, an infinity and not-a-number are never equal. A float
  of a \<open>float64\<close> column is compared with the level converted to float64; a float of an
  \<open>object\<close> column is compared by Python, exactly.
\<close>

fun series_eq :: "dtype \<Rightarrow> cell \<Rightarrow> int \<Rightarrow> bool" where
  "series_eq dt (IntCell n) level = (n = level)"
| "series_eq dt (FloatCell q) level =
     (q = of_int (if dt = Object then level else float64_of_int level))"
| "series_eq dt (BoolCell b) level = ((if b then 1 else 0) = level)"
| "series_eq dt c level = False"

text \<open>
  \<open>find_common_type\<close> of pandas on the dtypes of the columns: the dtype they all share;
  \<open>object\<close> when booleans meet numbers or when a column is \<open>object\<close>; \<open>float64\<close> for
  numeric dtypes that differ (and for no column at all, where pandas makes an empty float
  array).
\<close>

definition find_common_type :: "dtype list \<Rightarrow> dtype" where
  "find_common_type types =
     (if types \<noteq> [] \<and> (\<forall>t\<in>set types. t = hd types) then hd types
      else if Bool \<in> set types
              \<and> (Int64 \<in> set types \<or> UInt64 \<in> set types \<or> Float64 \<in> set types)
           then Object
      else if Object \<in> set types then Object
      else Float64)"

text \<open>The dtype of \<open>df.values\<close>, which every row of \<open>df.iterrows()\<close> gets.\<close>

definition values_dtype :: "dataframe \<Rightarrow> dtype" where
  "values_dtype df = find_common_type (map (dtypes df) (columns df))"

text \<open>A cell converted to the dtype of the row: only an integer in a float row changes.\<close>

fun astype :: "dtype \<Rightarrow> cell \<Rightarrow> cell" where
  "astype Float64 (IntCell n) = FloatCell (of_int (float64_of_int n))"
| "astype dt c = c"

text \<open>The rows \<open>df.iterrows()\<close> hands out, in order.\<close>

definition iterrows :: "dataframe \<Rightarrow> (string \<Rightarrow> cell) list" where
  "iterrows df = map (\<lambda>row key. astype (values_dtype df) (row key)) (rows df)"

subsection \<open>The labeled patch extractor\<close>

text \<open>\<open>df[key] == level\<close>: a \<open>KeyError\<close> without the column, else one boolean per row.\<close>

definition column_eq :: "dataframe \<Rightarrow> string \<Rightarrow> int \<Rightarrow> error + bool list" where
  "column_eq df key level =
     (if key \<in> set (columns df)
      then Inr (map (\<lambda>row. series_eq (dtypes df key) (row key) level) (rows df))
      else Inl (KeyError key))"

text \<open>
  \<open>df[mask]\<close>: the rows whose entry in the boolean series is true, in order, under the
  same columns and dtypes.
\<close>

definition mask_select :: "dataframe \<Rightarrow> bool list \<Rightarrow> dataframe" where
  "mask_select df flags = df\<lparr>rows := map fst (filter snd (zip (rows df) flags))\<rparr>"

text \<open>\<open>row[key]\<close> on a row of a frame with the columns \<open>cols\<close>.\<close>

definition row_getitem :: "string list \<Rightarrow> (string \<Rightarrow> cell) \<Rightarrow> string \<Rightarrow> error + cell" where
  "row_getitem cols row key = (if key \<in> set cols then Inr (row key) else Inl (KeyError key))"

text \<open>The \<open>for\<close> loop over the rows handed out, with its three reads per row.\<close>

fun iterrows_loop ::
  "string list \<Rightarrow> string \<Rightarrow> (string \<Rightarrow> cell) list \<Rightarrow> (cell \<times> cell \<times> cell) generator" where
  "iterrows_loop cols column [] = ([], None)"
| "iterrows_loop cols column (row # remaining) =
     (case row_getitem cols row ''x'' of
        Inl e \<Rightarrow> ([], Some e)
      | Inr vx \<Rightarrow>
         (case row_getitem cols row ''y'' of
            Inl e \<Rightarrow> ([], Some e)
          | Inr vy \<Rightarrow>
             (case row_getitem cols row column of
                Inl e \<Rightarrow> ([], Some e)
              | Inr lab \<Rightarrow>
                 ((vx, vy, lab) # fst (iterrows_loop cols column remaining),
                  snd (iterrows_loop cols column remaining)))))"

text \<open>\<open>df[df["level"] == level]\<close>, the level-filtered view.\<close>

definition level_filter :: "dataframe \<Rightarrow> int \<Rightarrow> error + dataframe" where
  "level_filter df level =
     (case column_eq df ''level'' level of
        Inl e \<Rightarrow> Inl e
      | Inr flags \<Rightarrow> Inr (mask_select df flags))"

definition handle_labeled_patches ::
  "filesystem \<Rightarrow> string \<Rightarrow> int \<Rightarrow> string \<Rightarrow> (cell \<times> cell \<times> cell) generator" where
  "handle_labeled_patches fs patch_file level column =
     (case pd_read_csv fs patch_file of
        None \<Rightarrow> ([], Some (ExternalError patch_file))
      | Some df \<Rightarrow>
         (case level_filter df level of
            Inl e \<Rightarrow> ([], Some e)
          | Inr level_df \<Rightarrow>
             if column \<notin> set (columns level_df) then
               ([], Some (UnknownColumnError
                  (''Column '' @ column @ '' does not exists in '' @ patch_file @ ''!!!'')))
             else iterrows_loop (columns level_df) column (iterrows level_df)))"

subsection \<open>The dataset assembler\<close>

text \<open>
  A patch descriptor is the dictionary with the keys \<open>slide\<close>, \<open>x\<close>, \<open>y\<close>, \<open>level\<close> and
  \<open>dimensions\<close>; the fields carry the prefix \<open>p_\<close>.
\<close>

record patch =
  p_slide :: string
  p_x :: cell
  p_y :: cell
  p_level :: int
  p_dimensions :: "int \<times> int"

record PathaiaHandler =
  slide_folder :: string
  project_folder :: string

text \<open>The body of the inner \<open>for\<close> loop, run over the items the extractor yields.\<close>

fun append_loop ::
  "string \<Rightarrow> int \<Rightarrow> int \<times> int \<Rightarrow> (cell \<times> cell \<times> cell) list \<Rightarrow> patch list \<times> cell list
     \<Rightarrow> patch list \<times> cell list" where
  "append_loop slide_path level dims [] (patch_list, labels) = (patch_list, labels)"
| "append_loop slide_path level dims ((vx, vy, lab) # items) (patch_list, labels) =
     append_loop slide_path level dims items
       (patch_list @ [\<lparr>p_slide = slide_path, p_x = vx, p_y = vy,
                        p_level = level, p_dimensions = dims\<rparr>],
        labels @ [lab])"

text \<open>
  The \<open>try\<close> block for one slide entry: the two lists after it, and the exception that
  left it, if any. The items yielded before an exception are appended before it is seen.
\<close>

definition try_block ::
  "filesystem \<Rightarrow> string \<Rightarrow> int \<Rightarrow> int \<times> int \<Rightarrow> string \<Rightarrow> string \<Rightarrow> string
     \<Rightarrow> patch list \<times> cell list \<Rightarrow> (patch list \<times> cell list) \<times> error option" where
  "try_block fs slide_dir level dims label name patch_folder acc =
     (case get_slide_file fs slide_dir name of
        Inl e \<Rightarrow> (acc, Some e)
      | Inr slide_path \<Rightarrow>
         (case get_patch_csv_from_patch_folder fs patch_folder of
            Inl e \<Rightarrow> (acc, Some e)
          | Inr patch_file \<Rightarrow>
             (append_loop slide_path level dims
                (fst (handle_labeled_patches fs patch_file level label)) acc,
              snd (handle_labeled_patches fs patch_file level label))))"

text \<open>The \<open>except\<close> clause names three classes.\<close>

fun caught :: "error \<Rightarrow> bool" where
  "caught (PatchesNotFoundError m) = True"
| "caught (UnknownColumnError m) = True"
| "caught (SlideNotFoundError m) = True"
| "caught e = False"

fun slides_loop ::
  "filesystem \<Rightarrow> string \<Rightarrow> int \<Rightarrow> int \<times> int \<Rightarrow> string \<Rightarrow> (string \<times> string) list
     \<Rightarrow> patch list \<times> cell list \<Rightarrow> string list
     \<Rightarrow> string list \<times> (error + patch list \<times> cell list)" where
  "slides_loop fs slide_dir level dims label [] acc warned = (warned, Inr acc)"
| "slides_loop fs slide_dir level dims label ((name, patch_folder) # entries) acc warned =
     (case snd (try_block fs slide_dir level dims label name patch_folder acc) of
        None \<Rightarrow>
          slides_loop fs slide_dir level dims label entries
            (fst (try_block fs slide_dir level dims label name patch_folder acc)) warned
      | Some e \<Rightarrow>
          if caught e then
            slides_loop fs slide_dir level dims label entries
              (fst (try_block fs slide_dir level dims label name patch_folder acc))
              (warned @ [str e])
          else (warned, Inl e))"

text \<open>
  \<open>list_patches\<close> returns the warnings issued and either the exception that left the
  method or the pair of lists it returns.
\<close>

definition list_patches ::
  "filesystem \<Rightarrow> PathaiaHandler \<Rightarrow> int \<Rightarrow> int \<times> int \<Rightarrow> string
     \<Rightarrow> string list \<times> (error + patch list \<times> cell list)" where
  "list_patches fs self level dims label =
     (case slides_loop fs (slide_folder self) level dims label
             (fst (get_patch_folders_in_project fs (project_folder self) default_exclude))
             ([], []) [] of
        (warned, Inl e) \<Rightarrow> (warned, Inl e)
      | (warned, Inr acc) \<Rightarrow>
          (case snd (get_patch_folders_in_project fs (project_folder self) default_exclude) of
             None \<Rightarrow> (warned, Inr acc)
           | Some e \<Rightarrow> (warned, Inl e)))"

subsection \<open>The dataset as the specification words it\<close>

text \<open>
  These definitions follow the words of the specification, not the code; the assembler is
  compared with them. A slide entry whose slide file and patch table are found, and whose
  table has the label column, contributes the rows of its table at the queried level, in
  table order; any other entry contributes nothing. The dataset is built from the rows of
  the entries the walker yields, in its order. A contributed row is kept with the slide
  entry it comes from, the slide path found for that entry and the dtype of the rows of
  its table.
\<close>

record source_row =
  src_entry :: "string \<times> string"
  src_slide :: string
  src_dtype :: dtype
  src_row :: "string \<Rightarrow> cell"

definition spec_slide_rows ::
  "filesystem \<Rightarrow> string \<Rightarrow> int \<Rightarrow> string \<Rightarrow> string \<times> string \<Rightarrow> source_row list" where
  "spec_slide_rows fs slide_dir level label entry =
     (case get_slide_file fs slide_dir (fst entry) of
        Inl e \<Rightarrow> []
      | Inr slide_path \<Rightarrow>
         (case get_patch_csv_from_patch_folder fs (snd entry) of
            Inl e \<Rightarrow> []
          | Inr patch_file \<Rightarrow>
             (case pd_read_csv fs patch_file of
                None \<Rightarrow> []
              | Some df \<Rightarrow>
                 if label \<in> set (columns df)
                 then map (\<lambda>row. \<lparr>src_entry = entry, src_slide = slide_path,
                                   src_dtype = values_dtype df, src_row = row\<rparr>)
                        (filter (\<lambda>row. series_eq (dtypes df ''level'') (row ''level'') level)
                           (rows df))
                 else [])))"

definition spec_dataset_rows ::
  "filesystem \<Rightarrow> PathaiaHandler \<Rightarrow> int \<Rightarrow> string \<Rightarrow> source_row list" where
  "spec_dataset_rows fs self level label =
     concat (map (spec_slide_rows fs (slide_folder self) level label)
               (fst (get_patch_folders_in_project fs (project_folder self) default_exclude)))"

text \<open>
  The descriptor and the label of a contributed row, its cells as the rows of its table
  are handed out.
\<close>

definition spec_descriptor :: "int \<Rightarrow> int \<times> int \<Rightarrow> source_row \<Rightarrow> patch" where
  "spec_descriptor level dims r =
     \<lparr>p_slide = src_slide r,
      p_x = astype (src_dtype r) (src_row r ''x''),
      p_y = astype (src_dtype r) (src_row r ''y''),
      p_level = level, p_dimensions = dims\<rparr>"

definition spec_label :: "string \<Rightarrow> source_row \<Rightarrow> cell" where
  "spec_label label r = astype (src_dtype r) (src_row r label)"

text \<open>
  The warnings of a slide entry: the message of the failure when its slide file, its patch
  table or the label column is missing, else none.
\<close>

definition spec_slide_warnings ::
  "filesystem \<Rightarrow> string \<Rightarrow> int \<Rightarrow> string \<Rightarrow> string \<times> string \<Rightarrow> string list" where
  "spec_slide_warnings fs slide_dir level label entry =
     (case get_slide_file fs slide_dir (fst entry) of
        Inl e \<Rightarrow> [str e]
      | Inr slide_path \<Rightarrow>
         (case get_patch_csv_from_patch_folder fs (snd entry) of
            Inl e \<Rightarrow> [str e]
          | Inr patch_file \<Rightarrow>
             (case snd (handle_labeled_patches fs patch_file level label) of
                None \<Rightarrow> []
              | Some e \<Rightarrow> if caught e then [str e] else [])))"

subsection \<open>A sample project\<close>

text \<open>
  Project \<open>P\<close> holds \<open>slideA\<close> (a table with one row at level 0 and one at level 1),
  \<open>slideB\<close> (no table), the file \<open>notes.txt\<close> and the folder \<open>annotation_notes\<close>; the slide
  folder \<open>S\<close> holds \<open>slideA.mrxs\<close>, \<open>slideB.mrxs\<close> and a hidden file. Project \<open>Q\<close>
  holds \<open>slideA\<close> alone, project \<open>T\<close> holds \<open>slideA\<close> and \<open>slideB\<close>, each with a table,
  project \<open>E\<close> holds a file and an excluded folder, and project \<open>B\<close> holds \<open>slideA\<close>
  with the table of integers below.
\<close>

definition mk_row :: "(string \<times> cell) list \<Rightarrow> string \<Rightarrow> cell" where
  "mk_row kvs key = (case map_of kvs key of Some v \<Rightarrow> v | None \<Rightarrow> StrCell [])"

definition row0 :: "string \<Rightarrow> cell" where
  "row0 = mk_row [(''level'', IntCell 0), (''x'', IntCell 1), (''y'', IntCell 2),
                  (''tumor'', StrCell ''yes'')]"

definition row1 :: "string \<Rightarrow> cell" where
  "row1 = mk_row [(''level'', IntCell 1), (''x'', IntCell 3), (''y'', IntCell 4),
                  (''tumor'', StrCell ''no'')]"

definition tableA :: dataframe where
  "tableA = \<lparr>columns = [''level'', ''x'', ''y'', ''tumor''],
             dtypes = (\<lambda>key. if key = ''tumor'' then Object else Int64),
             rows = [row0, row1]\<rparr>"

definition rowB :: "string \<Rightarrow> cell" where
  "rowB = mk_row [(''level'', IntCell 0), (''x'', IntCell 7), (''y'', IntCell 8),
                  (''tumor'', StrCell ''no'')]"

definition tableB :: dataframe where
  "tableB = \<lparr>columns = [''level'', ''x'', ''y'', ''tumor''],
             dtypes = (\<lambda>key. if key = ''tumor'' then Object else Int64),
             rows = [rowB]\<rparr>"

text \<open>
  A table of integers alone, its label column of dtype \<open>uint64\<close>: \<open>x\<close> is \<open>2^53 + 1\<close> and
  the label is \<open>2^63 + 1\<close>.
\<close>

definition rowBig :: "string \<Rightarrow> cell" where
  "rowBig = mk_row [(''level'', IntCell 0), (''x'', IntCell 9007199254740993),
                    (''y'', IntCell 2), (''tumor'', IntCell 9223372036854775809)]"

definition tableBig :: dataframe where
  "tableBig = \<lparr>columns = [''level'', ''x'', ''y'', ''tumor''],
               dtypes = (\<lambda>key. if key = ''tumor'' then UInt64 else Int64),
               rows = [rowBig]\<rparr>"

definition sample_fs :: filesystem where
  "sample_fs =
     \<lparr>os_path_isdir = (\<lambda>p. p \<in> set [''P'', ''S'', ''P/slideA'', ''P/slideB'',
                                      ''P/annotation_notes'', ''Q'', ''Q/slideA'',
                                      ''E'', ''E/annotation_1'', ''B'', ''B/slideA'',
                                      ''T'', ''T/slideA'', ''T/slideB'']),
      os_path_exists = (\<lambda>p. p \<in> set [''P'', ''S'', ''P/slideA'', ''P/slideB'',
                                       ''P/annotation_notes'', ''P/notes.txt'',
                                       ''P/slideA/patches.csv'', ''S/slideA.mrxs'',
                                       ''S/.slideA.mrxs'', ''S/slideB.mrxs'',
                                       ''Q'', ''Q/slideA'', ''Q/slideA/patches.csv'',
                                       ''E'', ''E/annotation_1'', ''E/notes.txt'',
                                       ''B'', ''B/slideA'', ''B/slideA/patches.csv'',
                                       ''T'', ''T/slideA'', ''T/slideB'',
                                       ''T/slideA/patches.csv'', ''T/slideB/patches.csv'']),
      os_listdir = (\<lambda>p. if p = ''P'' then [''annotation_notes'', ''slideB'', ''notes.txt'',
                                             ''slideA'']
                         else if p = ''S'' then [''.slideA.mrxs'', ''slideA.mrxs'',
                                                 ''slideB.mrxs'']
                         else if p = ''P/slideA'' then [''patches.csv'']
                         else if p = ''Q'' then [''slideA'']
                         else if p = ''Q/slideA'' then [''patches.csv'']
                         else if p = ''E'' then [''annotation_1'', ''notes.txt'']
                         else if p = ''B'' then [''slideA'']
                         else if p = ''B/slideA'' then [''patches.csv'']
                         else if p = ''T'' then [''slideA'', ''slideB'']
                         else if p = ''T/slideA'' then [''patches.csv'']
                         else if p = ''T/slideB'' then [''patches.csv'']
                         else []),
      pd_read_csv = (\<lambda>p. if p = ''P/slideA/patches.csv'' \<or> p = ''Q/slideA/patches.csv''
                               \<or> p = ''T/slideA/patches.csv''
                          then Some tableA
                          else if p = ''T/slideB/patches.csv'' then Some tableB
                          else if p = ''B/slideA/patches.csv'' then Some tableBig
                          else None)\<rparr>"

definition sample_handler :: PathaiaHandler where
  "sample_handler = \<lparr>slide_folder = ''S'', project_folder = ''P''\<rparr>"

text \<open>The same file system with a table put into the excluded folder of \<open>P\<close>.\<close>

definition sample_fs_annotated :: filesystem where
  "sample_fs_annotated =
     sample_fs\<lparr>os_path_exists :=
                 (\<lambda>p. p = ''P/annotation_notes/patches.csv'' \<or> os_path_exists sample_fs p),
               pd_read_csv :=
                 (\<lambda>p. if p = ''P/annotation_notes/patches.csv'' then Some tableA
                      else pd_read_csv sample_fs p)\<rparr>"

section \<open>Properties\<close>

lemmas sample_simps = sample_fs_def sample_handler_def tableA_def row0_def row1_def mk_row_def
  tableB_def rowB_def tableBig_def rowBig_def


subsection \<open>Integers as floats\<close>









subsection \<open>The labeled patch extractor\<close>

lemma zip_map_filter: "map fst (filter snd (zip xs (map f xs))) = filter f xs"
  by (induction xs) auto

lemma level_filter_ok:
  "''level'' \<in> set (columns df) \<Longrightarrow>
   level_filter df level =
     Inr (df\<lparr>rows := filter (\<lambda>row. series_eq (dtypes df ''level'') (row ''level'') level)
                          (rows df)\<rparr>)"
  by (simp add: level_filter_def column_eq_def mask_select_def zip_map_filter)

lemma level_filter_missing:
  "''level'' \<notin> set (columns df) \<Longrightarrow> level_filter df level = Inl (KeyError ''level'')"
  by (simp add: level_filter_def column_eq_def)

lemma level_filter_columns:
  "level_filter df level = Inr level_df \<Longrightarrow> columns level_df = columns df"
  by (auto simp: level_filter_def column_eq_def mask_select_def split: if_splits)

lemma iterrows_view:
  "iterrows (df\<lparr>rows := rs\<rparr>) = map (\<lambda>row key. astype (values_dtype df) (row key)) rs"
  by (simp add: iterrows_def values_dtype_def)

lemma iterrows_loop_all:
  "''x'' \<in> set cols \<Longrightarrow> ''y'' \<in> set cols \<Longrightarrow> column \<in> set cols \<Longrightarrow>
   iterrows_loop cols column rs = (map (\<lambda>row. (row ''x'', row ''y'', row column)) rs, None)"
  by (induction rs) (simp_all add: row_getitem_def)

lemma iterrows_loop_error:
  assumes "snd (iterrows_loop cols column rs) = Some e"
  shows "fst (iterrows_loop cols column rs) = [] \<and> (\<exists>k. e = KeyError k)"
proof (cases "''x'' \<in> set cols \<and> ''y'' \<in> set cols \<and> column \<in> set cols")
  case True
  with assms show ?thesis by (simp add: iterrows_loop_all)
next
  case False
  show ?thesis
  proof (cases rs)
    case Nil
    with assms show ?thesis by simp
  next
    case (Cons r rest)
    with assms False show ?thesis
      by (auto simp: row_getitem_def split: if_splits)
  qed
qed




text \<open>
  Claim C7. When the table is read and the level filter gives a view (the table has a
  \<open>level\<close> column, as every patch table has), the extractor ends with
  \<open>UnknownColumnError\<close> exactly when the label column is not a column of that view, whose
  columns are those of the table; it then has yielded no row. The filter comes first: on a
  table without a \<open>level\<close> column the \<open>KeyError\<close> of the filter leaves the extractor
  before the column check is reached.
\<close>

theorem unknown_column_iff:
  assumes "pd_read_csv fs patch_file = Some df"
  shows "(\<forall>level_df. level_filter df level = Inr level_df \<longrightarrow>
            columns level_df = columns df
          \<and> ((\<exists>m. snd (handle_labeled_patches fs patch_file level column) =
                      Some (UnknownColumnError m))
               \<longleftrightarrow> column \<notin> set (columns level_df))
          \<and> (column \<notin> set (columns level_df) \<longrightarrow>
                handle_labeled_patches fs patch_file level column =
                  ([], Some (UnknownColumnError
                     (''Column '' @ column @ '' does not exists in '' @ patch_file @ ''!!!'')))))
       \<and> (\<forall>e. level_filter df level = Inl e \<longrightarrow>
            e = KeyError ''level''
          \<and> handle_labeled_patches fs patch_file level column = ([], Some e))"
proof (intro conjI allI impI)
  fix level_df
  assume lf: "level_filter df level = Inr level_df"
  show "columns level_df = columns df"
    using lf by (rule level_filter_columns)
  show "(\<exists>m. snd (handle_labeled_patches fs patch_file level column) =
              Some (UnknownColumnError m))
        \<longleftrightarrow> column \<notin> set (columns level_df)"
  proof (cases "column \<in> set (columns level_df)")
    case True
    have "\<And>m. snd (iterrows_loop (columns level_df) column (iterrows level_df))
            \<noteq> Some (UnknownColumnError m)"
      using iterrows_loop_error by fastforce
    with True assms lf show ?thesis
      by (simp add: handle_labeled_patches_def)
  next
    case False
    with assms lf show ?thesis
      by (simp add: handle_labeled_patches_def)
  qed
  show "handle_labeled_patches fs patch_file level column =
          ([], Some (UnknownColumnError
             (''Column '' @ column @ '' does not exists in '' @ patch_file @ ''!!!'')))"
    if "column \<notin> set (columns level_df)"
    using that assms lf by (simp add: handle_labeled_patches_def)
next
  fix e
  assume lf: "level_filter df level = Inl e"
  show "e = KeyError ''level''"
    using lf by (auto simp: level_filter_def column_eq_def split: if_splits)
  show "handle_labeled_patches fs patch_file level column = ([], Some e)"
    using assms lf by (simp add: handle_labeled_patches_def)
qed

theorem unknown_column_iff_witness:
  "pd_read_csv sample_fs ''P/slideA/patches.csv'' = Some tableA
   \<and> level_filter tableA 0 = Inr (tableA\<lparr>rows := [row0]\<rparr>)
   \<and> ''tumour'' \<notin> set (columns (tableA\<lparr>rows := [row0]\<rparr>))
   \<and> handle_labeled_patches sample_fs ''P/slideA/patches.csv'' 0 ''tumour'' =
       ([], Some (UnknownColumnError
          (''Column '' @ ''tumour'' @ '' does not exists in '' @ ''P/slideA/patches.csv'' @ ''!!!'')))
   \<and> pd_read_csv (sample_fs\<lparr>pd_read_csv := \<lambda>p. Some (tableA\<lparr>columns := [''x'', ''y'']\<rparr>)\<rparr>)
         ''P/slideA/patches.csv'' = Some (tableA\<lparr>columns := [''x'', ''y'']\<rparr>)
   \<and> level_filter (tableA\<lparr>columns := [''x'', ''y'']\<rparr>) 0 = Inl (KeyError ''level'')
   \<and> handle_labeled_patches
         (sample_fs\<lparr>pd_read_csv := \<lambda>p. Some (tableA\<lparr>columns := [''x'', ''y'']\<rparr>)\<rparr>)
         ''P/slideA/patches.csv'' 0 ''tumour'' = ([], Some (KeyError ''level''))"
proof -
  have r: "pd_read_csv sample_fs ''P/slideA/patches.csv'' = Some tableA"
    by (simp add: sample_fs_def)
  have lf: "level_filter tableA 0 = Inr (tableA\<lparr>rows := [row0]\<rparr>)"
    by (simp add: level_filter_ok tableA_def row0_def row1_def mk_row_def)
  have nc: "''tumour'' \<notin> set (columns (tableA\<lparr>rows := [row0]\<rparr>))"
    by (simp add: tableA_def)
  have r2: "pd_read_csv (sample_fs\<lparr>pd_read_csv := \<lambda>p. Some (tableA\<lparr>columns := [''x'', ''y'']\<rparr>)\<rparr>)
         ''P/slideA/patches.csv'' = Some (tableA\<lparr>columns := [''x'', ''y'']\<rparr>)"
    by simp
  have k: "level_filter (tableA\<lparr>columns := [''x'', ''y'']\<rparr>) 0 = Inl (KeyError ''level'')"
    by (simp add: level_filter_missing)
  from unknown_column_iff [OF r, of 0 "''tumour''"] lf nc
  have u: "handle_labeled_patches sample_fs ''P/slideA/patches.csv'' 0 ''tumour'' =
       ([], Some (UnknownColumnError
          (''Column '' @ ''tumour'' @ '' does not exists in '' @ ''P/slideA/patches.csv'' @ ''!!!'')))"
    by blast
  from unknown_column_iff [OF r2, of 0 "''tumour''"] k
  have v: "handle_labeled_patches
         (sample_fs\<lparr>pd_read_csv := \<lambda>p. Some (tableA\<lparr>columns := [''x'', ''y'']\<rparr>)\<rparr>)
         ''P/slideA/patches.csv'' 0 ''tumour'' = ([], Some (KeyError ''level''))"
    by blast
  from r lf nc u r2 k v show ?thesis by blast
qed

subsection \<open>The folder resolvers\<close>

lemma exclude_loop_eq:
  "exclude_loop exclude name keep = (keep \<and> (\<forall>ex\<in>set exclude. \<not> str_in ex name))"
  by (induction exclude arbitrary: keep) auto

lemma walk_loop_eq:
  "walk_loop fs project exclude names =
     map (\<lambda>name. (name, os_path_join project name))
       (filter (\<lambda>name. (\<forall>ex\<in>set exclude. \<not> str_in ex name)
                       \<and> os_path_isdir fs (os_path_join project name)) names)"
  by (induction names) (simp_all add: exclude_loop_eq)

lemma slide_loop_eq:
  "slide_loop folder slide_name names =
     map_option (os_path_join folder)
       (find (\<lambda>name. endswith name ''.mrxs'' \<and> \<not> startswith name ''.''
                     \<and> fst (os_path_splitext name) = slide_name) names)"
  by (induction names) auto

lemma rfind_loop_absent:
  "c \<notin> set p \<Longrightarrow> rfind_loop c p i found = found"
  by (induction p arbitrary: i found) auto

lemma rfind_loop_append:
  "rfind_loop c (p @ q) i found = rfind_loop c q (i + int (length p)) (rfind_loop c p i found)"
  by (induction p arbitrary: i found) (auto simp: algebra_simps)

lemma rfind_absent: "c \<notin> set p \<Longrightarrow> rfind p c = - 1"
  by (simp add: rfind_def rfind_loop_absent)

lemma rfind_last_dot:
  "CHR ''.'' \<notin> set ext \<Longrightarrow> rfind (base @ CHR ''.'' # ext) (CHR ''.'') = int (length base)"
  by (simp add: rfind_def rfind_loop_append rfind_loop_absent)

lemma splitext_loop_hit:
  "i < d \<Longrightarrow> take 1 (drop (nat i) p) \<noteq> ''.'' \<Longrightarrow>
   splitext_loop p i d = (take (nat d) p, drop (nat d) p)"
  by (subst splitext_loop.simps) simp

lemma splitext_simple:
  assumes "CHR ''/'' \<notin> set base" and "CHR ''/'' \<notin> set ext" and "CHR ''.'' \<notin> set ext"
    and "base \<noteq> []" and "hd base \<noteq> CHR ''.''"
  shows "os_path_splitext (base @ CHR ''.'' # ext) = (base, CHR ''.'' # ext)"
proof -
  have sep: "rfind (base @ CHR ''.'' # ext) (CHR ''/'') = - 1"
    using assms by (simp add: rfind_absent)
  have dot: "rfind (base @ CHR ''.'' # ext) (CHR ''.'') = int (length base)"
    using assms by (simp add: rfind_last_dot)
  obtain b bs where b: "base = b # bs" "b \<noteq> CHR ''.''"
    using assms by (cases base) auto
  have first: "take 1 (drop (nat 0) (base @ CHR ''.'' # ext)) \<noteq> ''.''"
    using b by simp
  have pos: "0 < int (length base)"
    using assms by simp
  have "splitext_loop (base @ CHR ''.'' # ext) 0 (int (length base)) = (base, CHR ''.'' # ext)"
    using splitext_loop_hit [OF pos first] by simp
  with sep dot show ?thesis
    by (simp add: os_path_splitext_def)
qed

text \<open>A directory entry holds no separator; for such a name the candidate test of the
  slide file locator is that the name is the slide name followed by \<open>.mrxs\<close>.\<close>

lemma candidate_iff:
  assumes "CHR ''/'' \<notin> set name"
  shows "(endswith name ''.mrxs'' \<and> \<not> startswith name ''.''
           \<and> fst (os_path_splitext name) = slide_name)
         \<longleftrightarrow> (name = slide_name @ ''.mrxs'' \<and> slide_name \<noteq> [] \<and> \<not> startswith slide_name ''.'')"
proof
  assume l: "endswith name ''.mrxs'' \<and> \<not> startswith name ''.''
           \<and> fst (os_path_splitext name) = slide_name"
  then obtain base where nb: "name = base @ ''.mrxs''"
    by (auto simp: endswith_def suffix_def)
  with l have ne: "base \<noteq> []" and hd: "hd base \<noteq> CHR ''.''"
    by (cases base; auto simp: startswith_def)+
  from assms nb have "os_path_splitext name = (base, ''.mrxs'')"
    using splitext_simple [of base "''mrxs''"] ne hd by simp
  with l nb ne hd show "name = slide_name @ ''.mrxs'' \<and> slide_name \<noteq> [] \<and> \<not> startswith slide_name ''.''"
    by (cases base) (auto simp: startswith_def)
next
  assume r: "name = slide_name @ ''.mrxs'' \<and> slide_name \<noteq> [] \<and> \<not> startswith slide_name ''.''"
  then have hd: "hd slide_name \<noteq> CHR ''.''"
    by (cases slide_name) (auto simp: startswith_def)
  from r assms have "os_path_splitext name = (slide_name, ''.mrxs'')"
    using splitext_simple [of slide_name "''mrxs''"] hd by simp
  with r hd show "endswith name ''.mrxs'' \<and> \<not> startswith name ''.''
           \<and> fst (os_path_splitext name) = slide_name"
    by (cases slide_name) (auto simp: endswith_def startswith_def suffix_def)
qed

text \<open>
  Claim C6. In a slide folder that is a directory, the locator returns the path (the
  folder joined with the entry) of the first entry of the listing that ends with \<open>.mrxs\<close>,
  does not start with a dot and whose base name under \<open>os.path.splitext\<close> is the slide
  name; for an entry without a separator that is the entry named by the slide name followed
  by \<open>.mrxs\<close>. Without such an entry it raises \<open>SlideNotFoundError\<close> with a message that
  contains the slide name and the folder path, and it raises \<open>SlideNotFoundError\<close> when the
  folder is not a directory.
\<close>

theorem slide_file_first_match:
  "(os_path_isdir fs folder \<longrightarrow>
      get_slide_file fs folder slide_name =
        (case find (\<lambda>name. endswith name ''.mrxs'' \<and> \<not> startswith name ''.''
                            \<and> fst (os_path_splitext name) = slide_name)
                (os_listdir fs folder) of
           Some name \<Rightarrow> Inr (os_path_join folder name)
         | None \<Rightarrow> Inl (SlideNotFoundError
              (''Could not find an mrxs slide file for: '' @ slide_name @ '' in ''
                 @ folder @ ''!!!''))))
   \<and> str_in slide_name (''Could not find an mrxs slide file for: '' @ slide_name @ '' in ''
                 @ folder @ ''!!!'')
   \<and> str_in folder (''Could not find an mrxs slide file for: '' @ slide_name @ '' in ''
                 @ folder @ ''!!!'')
   \<and> (\<not> os_path_isdir fs folder \<longrightarrow>
        get_slide_file fs folder slide_name =
          Inl (SlideNotFoundError (''Could not find a slide folder at: '' @ folder @ ''!!!'')))
   \<and> (CHR ''/'' \<notin> set entry \<longrightarrow>
        (endswith entry ''.mrxs'' \<and> \<not> startswith entry ''.''
           \<and> fst (os_path_splitext entry) = slide_name)
        = (entry = slide_name @ ''.mrxs'' \<and> slide_name \<noteq> [] \<and> \<not> startswith slide_name ''.''))"
proof (intro conjI impI)
  assume "os_path_isdir fs folder"
  then show "get_slide_file fs folder slide_name =
        (case find (\<lambda>name. endswith name ''.mrxs'' \<and> \<not> startswith name ''.''
                            \<and> fst (os_path_splitext name) = slide_name)
                (os_listdir fs folder) of
           Some name \<Rightarrow> Inr (os_path_join folder name)
         | None \<Rightarrow> Inl (SlideNotFoundError
              (''Could not find an mrxs slide file for: '' @ slide_name @ '' in ''
                 @ folder @ ''!!!'')))"
    by (simp add: get_slide_file_def slide_loop_eq split: option.splits)
next
  show "str_in slide_name (''Could not find an mrxs slide file for: '' @ slide_name @ '' in ''
                 @ folder @ ''!!!'')"
    unfolding str_in_def by (rule sublist_appendI)
next
  have "sublist folder ((''Could not find an mrxs slide file for: '' @ slide_name @ '' in '')
                 @ folder @ ''!!!'')"
    by (rule sublist_appendI)
  then show "str_in folder (''Could not find an mrxs slide file for: '' @ slide_name @ '' in ''
                 @ folder @ ''!!!'')"
    unfolding str_in_def by simp
next
  assume "\<not> os_path_isdir fs folder"
  then show "get_slide_file fs folder slide_name =
          Inl (SlideNotFoundError (''Could not find a slide folder at: '' @ folder @ ''!!!''))"
    by (simp add: get_slide_file_def)
next
  assume "CHR ''/'' \<notin> set entry"
  then show "(endswith entry ''.mrxs'' \<and> \<not> startswith entry ''.''
           \<and> fst (os_path_splitext entry) = slide_name)
        = (entry = slide_name @ ''.mrxs'' \<and> slide_name \<noteq> [] \<and> \<not> startswith slide_name ''.'')"
    by (rule candidate_iff)
qed

lemmas string_simps = startswith_def endswith_def str_in_def os_path_join_def
  os_path_splitext_def rfind_def sublist_code suffix_to_prefix splitext_loop.simps

theorem slide_file_first_match_witness:
  "os_path_isdir sample_fs ''S''
   \<and> get_slide_file sample_fs ''S'' ''slideA'' = Inr ''S/slideA.mrxs''
   \<and> get_slide_file sample_fs ''S'' ''slideC'' =
        Inl (SlideNotFoundError ''Could not find an mrxs slide file for: slideC in S!!!'')
   \<and> \<not> os_path_isdir sample_fs ''N''
   \<and> get_slide_file sample_fs ''N'' ''slideA'' =
        Inl (SlideNotFoundError ''Could not find a slide folder at: N!!!'')
   \<and> CHR ''/'' \<notin> set ''slideA.mrxs''
   \<and> fst (os_path_splitext ''slideA.mrxs'') = ''slideA''"
proof -
  have d: "os_path_isdir sample_fs ''S''" and nd: "\<not> os_path_isdir sample_fs ''N''"
    by (simp_all add: sample_fs_def)
  have l: "os_listdir sample_fs ''S'' = [''.slideA.mrxs'', ''slideA.mrxs'', ''slideB.mrxs'']"
    by (simp add: sample_fs_def)
  have c: "CHR ''/'' \<notin> set ''slideA.mrxs''"
    by simp
  have a: "get_slide_file sample_fs ''S'' ''slideA'' = Inr ''S/slideA.mrxs''"
    using slide_file_first_match [of sample_fs "''S''" "''slideA''"] d
    by (simp add: l string_simps)
  have b: "get_slide_file sample_fs ''S'' ''slideC'' =
        Inl (SlideNotFoundError ''Could not find an mrxs slide file for: slideC in S!!!'')"
    using slide_file_first_match [of sample_fs "''S''" "''slideC''"] d
    by (simp add: l string_simps)
  have t: "get_slide_file sample_fs ''N'' ''slideA'' =
        Inl (SlideNotFoundError ''Could not find a slide folder at: N!!!'')"
    using slide_file_first_match [of sample_fs "''N''" "''slideA''"] nd
    by simp
  have e: "fst (os_path_splitext ''slideA.mrxs'') = ''slideA''"
    using slide_file_first_match [of sample_fs "''S''" "''slideA''" "''slideA.mrxs''"] c
    by (simp add: startswith_def)
  from d nd a b t c e show ?thesis by blast
qed

subsection \<open>The project walker\<close>

lemma walker_entries:
  "os_path_isdir fs project \<Longrightarrow>
   get_patch_folders_in_project fs project exclude =
     (map (\<lambda>name. (name, os_path_join project name))
        (filter (\<lambda>name. (\<forall>ex\<in>set exclude. \<not> str_in ex name)
                        \<and> os_path_isdir fs (os_path_join project name))
           (os_listdir fs project)), None)"
  by (simp add: get_patch_folders_in_project_def walk_loop_eq)

lemma walker_no_project:
  "\<not> os_path_isdir fs project \<Longrightarrow>
   get_patch_folders_in_project fs project exclude =
     ([], Some (EmptyProjectError (''Did not find any project at: '' @ project)))"
  by (simp add: get_patch_folders_in_project_def)

lemma walker_member:
  assumes "(name, folder) \<in> set (fst (get_patch_folders_in_project fs project exclude))"
  shows "name \<in> set (os_listdir fs project) \<and> folder = os_path_join project name
         \<and> os_path_isdir fs folder \<and> (\<forall>ex\<in>set exclude. \<not> str_in ex name)"
proof (cases "os_path_isdir fs project")
  case True
  with assms show ?thesis by (auto simp: walker_entries)
next
  case False
  with assms show ?thesis by (simp add: walker_no_project)
qed

subsection \<open>The dataset assembler\<close>

lemma handle_labeled_patches_eq:
  "handle_labeled_patches fs patch_file level column =
     (case pd_read_csv fs patch_file of
        None \<Rightarrow> ([], Some (ExternalError patch_file))
      | Some df \<Rightarrow>
          if ''level'' \<notin> set (columns df) then ([], Some (KeyError ''level''))
          else if column \<notin> set (columns df) then
            ([], Some (UnknownColumnError
               (''Column '' @ column @ '' does not exists in '' @ patch_file @ ''!!!'')))
          else iterrows_loop (columns df) column
                 (map (\<lambda>row key. astype (values_dtype df) (row key))
                    (filter (\<lambda>row. series_eq (dtypes df ''level'') (row ''level'') level)
                       (rows df))))"
  by (simp add: handle_labeled_patches_def level_filter_ok level_filter_missing iterrows_view
        split: option.splits)

lemma iterrows_loop_none:
  assumes "snd (iterrows_loop cols column rs) = None"
  shows "fst (iterrows_loop cols column rs) = map (\<lambda>row. (row ''x'', row ''y'', row column)) rs"
proof (cases "''x'' \<in> set cols \<and> ''y'' \<in> set cols \<and> column \<in> set cols")
  case True
  then show ?thesis by (simp add: iterrows_loop_all)
next
  case False
  show ?thesis
  proof (cases rs)
    case Nil
    then show ?thesis by simp
  next
    case (Cons r rest)
    with assms False show ?thesis
      by (auto simp: row_getitem_def split: if_splits)
  qed
qed

lemma handle_error_no_items:
  assumes "snd (handle_labeled_patches fs patch_file level column) = Some e"
  shows "fst (handle_labeled_patches fs patch_file level column) = []"
  using assms iterrows_loop_error
  by (auto simp: handle_labeled_patches_eq split: option.splits if_splits)

lemma handle_error_kind:
  assumes "snd (handle_labeled_patches fs patch_file level column) = Some e"
  shows "(\<exists>m. e = ExternalError m) \<or> (\<exists>m. e = KeyError m) \<or> (\<exists>m. e = UnknownColumnError m)"
  using assms iterrows_loop_error
  by (auto simp: handle_labeled_patches_eq split: option.splits if_splits)

lemma handle_unknown_column:
  assumes "snd (handle_labeled_patches fs patch_file level column) = Some (UnknownColumnError m)"
  shows "\<exists>df. pd_read_csv fs patch_file = Some df \<and> column \<notin> set (columns df)"
  using assms
    iterrows_loop_error [of "columns (the (pd_read_csv fs patch_file))" column _
      "UnknownColumnError m"]
  by (auto simp: handle_labeled_patches_eq split: option.splits if_splits)

lemma handle_none:
  assumes "snd (handle_labeled_patches fs patch_file level column) = None"
  shows "\<exists>df. pd_read_csv fs patch_file = Some df \<and> column \<in> set (columns df)
            \<and> fst (handle_labeled_patches fs patch_file level column) =
                map (\<lambda>row. (astype (values_dtype df) (row ''x''),
                             astype (values_dtype df) (row ''y''),
                             astype (values_dtype df) (row column)))
                  (filter (\<lambda>row. series_eq (dtypes df ''level'') (row ''level'') level)
                     (rows df))"
  using assms
  by (auto simp: handle_labeled_patches_eq iterrows_loop_none comp_def
        split: option.splits if_splits)

lemma append_loop_eq:
  "append_loop slide_path level dims items (patch_list, labels) =
     (patch_list @ map (\<lambda>(vx, vy, lab). \<lparr>p_slide = slide_path, p_x = vx, p_y = vy,
                                          p_level = level, p_dimensions = dims\<rparr>) items,
      labels @ map (\<lambda>(vx, vy, lab). lab) items)"
  by (induction items arbitrary: patch_list labels) auto

lemma get_patch_csv_error_kind:
  "get_patch_csv_from_patch_folder fs folder = Inl e \<Longrightarrow>
   (\<exists>m. e = SlideNotFoundError m) \<or> (\<exists>m. e = PatchesNotFoundError m)"
  by (auto simp: get_patch_csv_from_patch_folder_def Let_def split: if_splits)

lemma get_slide_file_error_kind:
  "get_slide_file fs folder name = Inl e \<Longrightarrow> \<exists>m. e = SlideNotFoundError m"
  by (auto simp: get_slide_file_def split: if_splits option.splits)

lemma try_block_error_unchanged:
  assumes "snd (try_block fs slide_dir level dims label name folder acc) = Some e"
  shows "fst (try_block fs slide_dir level dims label name folder acc) = acc"
  using assms
  by (cases acc)
     (auto simp: try_block_def handle_error_no_items split: sum.splits)

lemma try_block_error_kind:
  assumes "snd (try_block fs slide_dir level dims label name folder acc) = Some e"
  shows "(\<exists>m. e = SlideNotFoundError m) \<or> (\<exists>m. e = PatchesNotFoundError m)
       \<or> (\<exists>m. e = UnknownColumnError m) \<or> (\<exists>m. e = KeyError m) \<or> (\<exists>m. e = ExternalError m)"
  using assms get_slide_file_error_kind [of fs slide_dir name e]
    get_patch_csv_error_kind [of fs folder e]
    handle_error_kind [of fs _ level label e]
  by (auto simp: try_block_def split: sum.splits)

lemma try_block_caught_rows:
  assumes "snd (try_block fs slide_dir level dims label name folder acc) = Some e"
    and "caught e"
  shows "spec_slide_rows fs slide_dir level label (name, folder) = []"
proof (cases "get_slide_file fs slide_dir name")
  case (Inl a)
  then show ?thesis by (simp add: spec_slide_rows_def)
next
  case sp: (Inr slide_path)
  show ?thesis
  proof (cases "get_patch_csv_from_patch_folder fs folder")
    case (Inl a)
    with sp show ?thesis by (simp add: spec_slide_rows_def)
  next
    case pf: (Inr patch_file)
    from assms sp pf have h: "snd (handle_labeled_patches fs patch_file level label) = Some e"
      by (simp add: try_block_def)
    with assms(2) handle_error_kind [OF h] obtain m where "e = UnknownColumnError m"
      by auto
    with h handle_unknown_column obtain df
      where "pd_read_csv fs patch_file = Some df" and "label \<notin> set (columns df)"
      by blast
    with sp pf show ?thesis by (simp add: spec_slide_rows_def)
  qed
qed

lemma try_block_caught_warnings:
  assumes "snd (try_block fs slide_dir level dims label name folder acc) = Some e"
    and "caught e"
  shows "spec_slide_warnings fs slide_dir level label (name, folder) = [str e]"
  using assms
  by (auto simp: try_block_def spec_slide_warnings_def split: sum.splits)

lemma try_block_none_warnings:
  assumes "snd (try_block fs slide_dir level dims label name folder acc) = None"
  shows "spec_slide_warnings fs slide_dir level label (name, folder) = []"
  using assms
  by (auto simp: try_block_def spec_slide_warnings_def split: sum.splits)

lemma try_block_none:
  assumes "snd (try_block fs slide_dir level dims label name folder (patch_list, labels)) = None"
  shows "fst (try_block fs slide_dir level dims label name folder (patch_list, labels)) =
           (patch_list @ map (spec_descriptor level dims)
                           (spec_slide_rows fs slide_dir level label (name, folder)),
            labels @ map (spec_label label)
                       (spec_slide_rows fs slide_dir level label (name, folder)))"
proof -
  from assms obtain slide_path where sp: "get_slide_file fs slide_dir name = Inr slide_path"
    by (auto simp: try_block_def split: sum.splits)
  from assms sp obtain patch_file
    where pf: "get_patch_csv_from_patch_folder fs folder = Inr patch_file"
    by (auto simp: try_block_def split: sum.splits)
  from assms sp pf have h: "snd (handle_labeled_patches fs patch_file level label) = None"
    by (simp add: try_block_def)
  from handle_none [OF h] obtain df
    where df: "pd_read_csv fs patch_file = Some df" "label \<in> set (columns df)"
      and items: "fst (handle_labeled_patches fs patch_file level label) =
                map (\<lambda>row. (astype (values_dtype df) (row ''x''),
                             astype (values_dtype df) (row ''y''),
                             astype (values_dtype df) (row label)))
                  (filter (\<lambda>row. series_eq (dtypes df ''level'') (row ''level'') level)
                     (rows df))"
    by blast
  have rows: "spec_slide_rows fs slide_dir level label (name, folder) =
          map (\<lambda>row. \<lparr>src_entry = (name, folder), src_slide = slide_path,
                       src_dtype = values_dtype df, src_row = row\<rparr>)
            (filter (\<lambda>row. series_eq (dtypes df ''level'') (row ''level'') level) (rows df))"
    using sp pf df by (simp add: spec_slide_rows_def)
  show ?thesis
    using sp pf items rows
    by (simp add: try_block_def append_loop_eq spec_descriptor_def spec_label_def comp_def)
qed

lemma slides_loop_ok:
  assumes "slides_loop fs slide_dir level dims label entries (patch_list, labels) warned =
             (warned', Inr (patch_list', labels'))"
  shows "patch_list' = patch_list @ map (spec_descriptor level dims)
                          (concat (map (spec_slide_rows fs slide_dir level label) entries))
       \<and> labels' = labels @ map (spec_label label)
                          (concat (map (spec_slide_rows fs slide_dir level label) entries))
       \<and> warned' = warned @ concat (map (spec_slide_warnings fs slide_dir level label) entries)"
  using assms
proof (induction entries arbitrary: patch_list labels warned)
  case Nil
  then show ?case by simp
next
  case (Cons entry entries)
  obtain name folder where entry: "entry = (name, folder)"
    by (cases entry)
  show ?case
  proof (cases "snd (try_block fs slide_dir level dims label name folder (patch_list, labels))")
    case None
    note tb = try_block_none [OF None]
    note nw = try_block_none_warnings [OF None]
    from Cons.prems entry None tb
    have "slides_loop fs slide_dir level dims label entries
            (patch_list @ map (spec_descriptor level dims)
                           (spec_slide_rows fs slide_dir level label (name, folder)),
             labels @ map (spec_label label)
                       (spec_slide_rows fs slide_dir level label (name, folder))) warned =
          (warned', Inr (patch_list', labels'))"
      by simp
    from Cons.IH [OF this] entry nw show ?thesis by simp
  next
    case (Some e)
    with Cons.prems entry have c: "caught e"
      by (auto split: if_splits)
    note un = try_block_error_unchanged [OF Some]
    note rows = try_block_caught_rows [OF Some c]
    note cw = try_block_caught_warnings [OF Some c]
    from Cons.prems entry Some c un
    have "slides_loop fs slide_dir level dims label entries (patch_list, labels)
            (warned @ [str e]) = (warned', Inr (patch_list', labels'))"
      by simp
    from Cons.IH [OF this] entry rows cw show ?thesis by simp
  qed
qed

lemma slides_loop_error_kind:
  assumes "slides_loop fs slide_dir level dims label entries acc warned = (warned', Inl e)"
  shows "(\<exists>m. e = KeyError m) \<or> (\<exists>m. e = ExternalError m)"
  using assms
proof (induction entries arbitrary: acc warned)
  case Nil
  then show ?case by simp
next
  case (Cons entry entries)
  obtain name folder where entry: "entry = (name, folder)"
    by (cases entry)
  show ?case
  proof (cases "snd (try_block fs slide_dir level dims label name folder acc)")
    case None
    with Cons.prems entry Cons.IH show ?thesis by simp
  next
    case (Some e')
    show ?thesis
    proof (cases "caught e'")
      case True
      with Cons.prems entry Some Cons.IH show ?thesis by simp
    next
      case False
      with Cons.prems entry Some have "e = e'" by simp
      with False try_block_error_kind [OF Some] show ?thesis by auto
    qed
  qed
qed

lemma slides_loop_prefix:
  "prefix warned (fst (slides_loop fs slide_dir level dims label entries acc warned))"
proof (induction entries arbitrary: acc warned)
  case Nil
  then show ?case by simp
next
  case (Cons entry entries)
  obtain name folder where entry: "entry = (name, folder)"
    by (cases entry)
  show ?case
  proof (cases "snd (try_block fs slide_dir level dims label name folder acc)")
    case None
    with entry Cons.IH show ?thesis by simp
  next
    case (Some e)
    show ?thesis
    proof (cases "caught e")
      case True
      have "prefix warned (warned @ [str e])" by simp
      also have "prefix (warned @ [str e])
          (fst (slides_loop fs slide_dir level dims label entries
                 (fst (try_block fs slide_dir level dims label name folder acc))
                 (warned @ [str e])))"
        by (rule Cons.IH)
      finally show ?thesis using entry Some True by simp
    next
      case False
      with entry Some show ?thesis by simp
    qed
  qed
qed

lemma list_patches_ok:
  assumes "list_patches fs self level dims label = (warned, Inr (patch_list, labels))"
  shows "patch_list = map (spec_descriptor level dims) (spec_dataset_rows fs self level label)
       \<and> labels = map (spec_label label) (spec_dataset_rows fs self level label)"
proof -
  from assms have "slides_loop fs (slide_folder self) level dims label
             (fst (get_patch_folders_in_project fs (project_folder self) default_exclude))
             ([], []) [] = (warned, Inr (patch_list, labels))"
    by (auto simp: list_patches_def split: prod.splits sum.splits option.splits)
  from slides_loop_ok [OF this] show ?thesis
    by (simp add: spec_dataset_rows_def)
qed

lemma list_patches_error_kind:
  assumes "list_patches fs self level dims label = (warned, Inl e)"
  shows "(\<exists>m. e = KeyError m) \<or> (\<exists>m. e = ExternalError m) \<or> (\<exists>m. e = EmptyProjectError m)"
proof (cases "slides_loop fs (slide_folder self) level dims label
             (fst (get_patch_folders_in_project fs (project_folder self) default_exclude))
             ([], []) []")
  case (Pair w r)
  show ?thesis
  proof (cases r)
    case (Inl e')
    with Pair assms have "e = e'"
      by (simp add: list_patches_def)
    with Pair Inl slides_loop_error_kind show ?thesis by blast
  next
    case (Inr acc)
    with Pair assms
    have "snd (get_patch_folders_in_project fs (project_folder self) default_exclude) = Some e"
      by (simp add: list_patches_def split: option.splits)
    then show ?thesis
      by (auto simp: get_patch_folders_in_project_def split: if_splits)
  qed
qed

lemmas model_simps = list_patches_def get_patch_folders_in_project_def default_exclude_def
  get_slide_file_def get_patch_csv_from_patch_folder_def handle_labeled_patches_def
  level_filter_def column_eq_def mask_select_def row_getitem_def try_block_def
  iterrows_def values_dtype_def find_common_type_def

lemma sample_result_P:
  "list_patches sample_fs sample_handler 0 (256, 256) ''tumor'' =
     ([''Could not find extracted patches for the slide: P/slideB''],
      Inr ([\<lparr>p_slide = ''S/slideA.mrxs'', p_x = IntCell 1, p_y = IntCell 2,
              p_level = 0, p_dimensions = (256, 256)\<rparr>], [StrCell ''yes'']))"
  by (simp add: model_simps sample_simps string_simps)


lemma sample_result_T:
  "list_patches sample_fs (sample_handler\<lparr>project_folder := ''T''\<rparr>) 0 (256, 256) ''tumor'' =
     ([], Inr ([\<lparr>p_slide = ''S/slideA.mrxs'', p_x = IntCell 1, p_y = IntCell 2,
                  p_level = 0, p_dimensions = (256, 256)\<rparr>,
                \<lparr>p_slide = ''S/slideB.mrxs'', p_x = IntCell 7, p_y = IntCell 8,
                  p_level = 0, p_dimensions = (256, 256)\<rparr>],
               [StrCell ''yes'', StrCell ''no'']))"
  by (simp add: model_simps sample_simps string_simps)


subsection \<open>Where a returned row comes from\<close>

lemma spec_slide_rows_single:
  assumes "get_slide_file fs slide_dir name = Inr slide_path"
    and "get_patch_csv_from_patch_folder fs folder = Inr patch_file"
    and "pd_read_csv fs patch_file = Some df"
    and "label \<in> set (columns df)"
  shows "spec_slide_rows fs slide_dir level label (name, folder) =
           map (\<lambda>row. \<lparr>src_entry = (name, folder), src_slide = slide_path,
                        src_dtype = values_dtype df, src_row = row\<rparr>)
             (filter (\<lambda>row. series_eq (dtypes df ''level'') (row ''level'') level) (rows df))"
  using assms by (simp add: spec_slide_rows_def)

lemma spec_slide_rows_member:
  assumes "r \<in> set (spec_slide_rows fs slide_dir level label entry)"
  shows "src_entry r = entry
       \<and> get_slide_file fs slide_dir (fst entry) = Inr (src_slide r)
       \<and> (\<exists>patch_file df.
             get_patch_csv_from_patch_folder fs (snd entry) = Inr patch_file
           \<and> pd_read_csv fs patch_file = Some df
           \<and> label \<in> set (columns df)
           \<and> src_row r \<in> set (rows df)
           \<and> series_eq (dtypes df ''level'') (src_row r ''level'') level
           \<and> src_dtype r = values_dtype df)"
proof (cases "get_slide_file fs slide_dir (fst entry)")
  case (Inl a)
  with assms show ?thesis by (simp add: spec_slide_rows_def)
next
  case sp: (Inr slide_path)
  show ?thesis
  proof (cases "get_patch_csv_from_patch_folder fs (snd entry)")
    case (Inl a)
    with assms sp show ?thesis by (simp add: spec_slide_rows_def)
  next
    case pf: (Inr patch_file)
    show ?thesis
    proof (cases "pd_read_csv fs patch_file")
      case None
      with assms sp pf show ?thesis by (simp add: spec_slide_rows_def)
    next
      case (Some df)
      with assms sp pf have c: "label \<in> set (columns df)"
        by (auto simp: spec_slide_rows_def split: if_splits)
      with assms sp pf Some obtain row
        where "row \<in> set (rows df)"
          and "series_eq (dtypes df ''level'') (row ''level'') level"
          and "r = \<lparr>src_entry = entry, src_slide = slide_path,
                     src_dtype = values_dtype df, src_row = row\<rparr>"
        by (auto simp: spec_slide_rows_def)
      with sp pf Some c show ?thesis by auto
    qed
  qed
qed

lemma spec_dataset_rows_member:
  assumes "r \<in> set (spec_dataset_rows fs self level label)"
  shows "src_entry r \<in> set (fst (get_patch_folders_in_project fs (project_folder self)
                                   default_exclude))
       \<and> get_slide_file fs (slide_folder self) (fst (src_entry r)) = Inr (src_slide r)
       \<and> (\<exists>patch_file df.
             get_patch_csv_from_patch_folder fs (snd (src_entry r)) = Inr patch_file
           \<and> pd_read_csv fs patch_file = Some df
           \<and> label \<in> set (columns df)
           \<and> src_row r \<in> set (rows df)
           \<and> series_eq (dtypes df ''level'') (src_row r ''level'') level
           \<and> src_dtype r = values_dtype df)"
proof -
  from assms obtain entry
    where e: "entry \<in> set (fst (get_patch_folders_in_project fs (project_folder self)
                                   default_exclude))"
      and m: "r \<in> set (spec_slide_rows fs (slide_folder self) level label entry)"
    by (auto simp: spec_dataset_rows_def)
  from spec_slide_rows_member [OF m] e show ?thesis
    by auto
qed





text \<open>
  Claim C8. When \<open>list_patches\<close> returns, there is one descriptor for each row the dataset
  is built from, in order, and the descriptor at an index carries the queried level (the
  argument of the call, whatever the table holds), the pair of dimensions of the call, and
  as its slide the path the slide file locator gives for the slide entry whose table the
  row at that index is from: the row is a row of the table of that entry, and the \<open>x\<close>
  and \<open>y\<close> of the descriptor are the cells of that row as handed out.
\<close>

theorem descriptor_fields:
  assumes "list_patches fs self level dims label = (warned, Inr (patch_list, labels))"
  shows "length patch_list = length (spec_dataset_rows fs self level label)
       \<and> (\<forall>i < length patch_list.
            p_level (patch_list ! i) = level
          \<and> p_dimensions (patch_list ! i) = dims
          \<and> src_entry (spec_dataset_rows fs self level label ! i)
              \<in> set (fst (get_patch_folders_in_project fs (project_folder self) default_exclude))
          \<and> get_slide_file fs (slide_folder self)
                (fst (src_entry (spec_dataset_rows fs self level label ! i))) =
              Inr (p_slide (patch_list ! i))
          \<and> (\<exists>patch_file df.
                get_patch_csv_from_patch_folder fs
                  (snd (src_entry (spec_dataset_rows fs self level label ! i))) = Inr patch_file
              \<and> pd_read_csv fs patch_file = Some df
              \<and> src_row (spec_dataset_rows fs self level label ! i) \<in> set (rows df)
              \<and> p_x (patch_list ! i) =
                  astype (values_dtype df)
                    (src_row (spec_dataset_rows fs self level label ! i) ''x'')
              \<and> p_y (patch_list ! i) =
                  astype (values_dtype df)
                    (src_row (spec_dataset_rows fs self level label ! i) ''y'')))"
proof -
  let ?src = "spec_dataset_rows fs self level label"
  note ok = list_patches_ok [OF assms]
  have len: "length patch_list = length ?src"
    using ok by simp
  have idx: "p_level (patch_list ! i) = level
          \<and> p_dimensions (patch_list ! i) = dims
          \<and> src_entry (?src ! i)
              \<in> set (fst (get_patch_folders_in_project fs (project_folder self) default_exclude))
          \<and> get_slide_file fs (slide_folder self) (fst (src_entry (?src ! i))) =
              Inr (p_slide (patch_list ! i))
          \<and> (\<exists>patch_file df.
                get_patch_csv_from_patch_folder fs (snd (src_entry (?src ! i))) = Inr patch_file
              \<and> pd_read_csv fs patch_file = Some df
              \<and> src_row (?src ! i) \<in> set (rows df)
              \<and> p_x (patch_list ! i) = astype (values_dtype df) (src_row (?src ! i) ''x'')
              \<and> p_y (patch_list ! i) = astype (values_dtype df) (src_row (?src ! i) ''y''))"
    if "i < length patch_list" for i
  proof -
    from that len have i: "i < length ?src" by simp
    then have m: "?src ! i \<in> set ?src" by simp
    from ok i have d: "patch_list ! i = spec_descriptor level dims (?src ! i)"
      by (metis nth_map)
    then have f: "p_level (patch_list ! i) = level" "p_dimensions (patch_list ! i) = dims"
        "p_slide (patch_list ! i) = src_slide (?src ! i)"
        "p_x (patch_list ! i) = astype (src_dtype (?src ! i)) (src_row (?src ! i) ''x'')"
        "p_y (patch_list ! i) = astype (src_dtype (?src ! i)) (src_row (?src ! i) ''y'')"
      by (simp_all add: spec_descriptor_def)
    from spec_dataset_rows_member [OF m] obtain patch_file df
      where e: "src_entry (?src ! i)
              \<in> set (fst (get_patch_folders_in_project fs (project_folder self) default_exclude))"
        and g: "get_slide_file fs (slide_folder self) (fst (src_entry (?src ! i))) =
              Inr (src_slide (?src ! i))"
        and c: "get_patch_csv_from_patch_folder fs (snd (src_entry (?src ! i))) = Inr patch_file"
        and r: "pd_read_csv fs patch_file = Some df"
        and w: "src_row (?src ! i) \<in> set (rows df)"
        and t: "src_dtype (?src ! i) = values_dtype df"
      by blast
    from f g have g': "get_slide_file fs (slide_folder self) (fst (src_entry (?src ! i))) =
              Inr (p_slide (patch_list ! i))"
      by simp
    from f t have x: "p_x (patch_list ! i) = astype (values_dtype df) (src_row (?src ! i) ''x'')"
      and y: "p_y (patch_list ! i) = astype (values_dtype df) (src_row (?src ! i) ''y'')"
      by simp_all
    from f(1,2) e g' c r w x y show ?thesis by blast
  qed
  from len idx show ?thesis by blast
qed

lemma sample_rows_T:
  "spec_dataset_rows sample_fs (sample_handler\<lparr>project_folder := ''T''\<rparr>) 0 ''tumor'' =
     [\<lparr>src_entry = (''slideA'', ''T/slideA''), src_slide = ''S/slideA.mrxs'',
       src_dtype = Object, src_row = row0\<rparr>,
      \<lparr>src_entry = (''slideB'', ''T/slideB''), src_slide = ''S/slideB.mrxs'',
       src_dtype = Object, src_row = rowB\<rparr>]"
proof -
  have w: "fst (get_patch_folders_in_project sample_fs ''T'' default_exclude) =
         [(''slideA'', ''T/slideA''), (''slideB'', ''T/slideB'')]"
    by (simp add: model_simps sample_simps string_simps)
  have a: "get_slide_file sample_fs ''S'' ''slideA'' = Inr ''S/slideA.mrxs''"
    and b: "get_slide_file sample_fs ''S'' ''slideB'' = Inr ''S/slideB.mrxs''"
    by (simp_all add: model_simps sample_simps string_simps)
  have ca: "get_patch_csv_from_patch_folder sample_fs ''T/slideA'' = Inr ''T/slideA/patches.csv''"
    and cb: "get_patch_csv_from_patch_folder sample_fs ''T/slideB'' = Inr ''T/slideB/patches.csv''"
    by (simp_all add: model_simps sample_simps string_simps)
  have da: "pd_read_csv sample_fs ''T/slideA/patches.csv'' = Some tableA"
    and db: "pd_read_csv sample_fs ''T/slideB/patches.csv'' = Some tableB"
    by (simp_all add: sample_fs_def)
  have ta: "''tumor'' \<in> set (columns tableA)" and tb: "''tumor'' \<in> set (columns tableB)"
    by (simp_all add: tableA_def tableB_def)
  have va: "values_dtype tableA = Object" and vb: "values_dtype tableB = Object"
    by (simp_all add: values_dtype_def find_common_type_def tableA_def tableB_def)
  have fa: "filter (\<lambda>row. series_eq (dtypes tableA ''level'') (row ''level'') 0) (rows tableA)
              = [row0]"
    and fb: "filter (\<lambda>row. series_eq (dtypes tableB ''level'') (row ''level'') 0) (rows tableB)
              = [rowB]"
    by (simp_all add: tableA_def tableB_def row0_def row1_def rowB_def mk_row_def)
  show ?thesis
    by (simp add: spec_dataset_rows_def sample_handler_def w
          spec_slide_rows_single [OF a ca da ta] spec_slide_rows_single [OF b cb db tb]
          va vb fa fb)
qed

theorem descriptor_fields_witness:
  "list_patches sample_fs (sample_handler\<lparr>project_folder := ''T''\<rparr>) 0 (256, 256) ''tumor'' =
     ([], Inr ([\<lparr>p_slide = ''S/slideA.mrxs'', p_x = IntCell 1, p_y = IntCell 2,
                  p_level = 0, p_dimensions = (256, 256)\<rparr>,
                \<lparr>p_slide = ''S/slideB.mrxs'', p_x = IntCell 7, p_y = IntCell 8,
                  p_level = 0, p_dimensions = (256, 256)\<rparr>],
               [StrCell ''yes'', StrCell ''no'']))
   \<and> src_entry (spec_dataset_rows sample_fs (sample_handler\<lparr>project_folder := ''T''\<rparr>) 0
                   ''tumor'' ! 1) = (''slideB'', ''T/slideB'')
   \<and> src_row (spec_dataset_rows sample_fs (sample_handler\<lparr>project_folder := ''T''\<rparr>) 0
                   ''tumor'' ! 1) ''x'' = IntCell 7
   \<and> get_slide_file sample_fs (slide_folder (sample_handler\<lparr>project_folder := ''T''\<rparr>))
         ''slideB'' = Inr ''S/slideB.mrxs''
   \<and> get_slide_file sample_fs (slide_folder (sample_handler\<lparr>project_folder := ''T''\<rparr>))
         ''slideA'' = Inr ''S/slideA.mrxs''"
proof -
  let ?h = "sample_handler\<lparr>project_folder := ''T''\<rparr>"
  let ?pl = "[\<lparr>p_slide = ''S/slideA.mrxs'', p_x = IntCell 1, p_y = IntCell 2,
                  p_level = 0, p_dimensions = (256, 256)\<rparr>,
                \<lparr>p_slide = ''S/slideB.mrxs'', p_x = IntCell 7, p_y = IntCell 8,
                  p_level = 0, p_dimensions = (256, 256)\<rparr>]"
  note th = descriptor_fields [OF sample_result_T]
  have e1: "src_entry (spec_dataset_rows sample_fs ?h 0 ''tumor'' ! 1) = (''slideB'', ''T/slideB'')"
    and e0: "src_entry (spec_dataset_rows sample_fs ?h 0 ''tumor'' ! 0) = (''slideA'', ''T/slideA'')"
    and x1: "src_row (spec_dataset_rows sample_fs ?h 0 ''tumor'' ! 1) ''x'' = IntCell 7"
    by (simp_all add: sample_rows_T rowB_def mk_row_def)
  have i1: "(1::nat) < length ?pl" and i0: "(0::nat) < length ?pl"
    by simp_all
  note at1 = mp [OF spec [OF conjunct2 [OF th], of 1] i1]
  note at0 = mp [OF spec [OF conjunct2 [OF th], of 0] i0]
  from conjunct1 [OF conjunct2 [OF conjunct2 [OF conjunct2 [OF at1]]]]
  have b: "get_slide_file sample_fs (slide_folder ?h) ''slideB'' = Inr ''S/slideB.mrxs''"
    by (simp add: sample_rows_T)
  from conjunct1 [OF conjunct2 [OF conjunct2 [OF conjunct2 [OF at0]]]]
  have a: "get_slide_file sample_fs (slide_folder ?h) ''slideA'' = Inr ''S/slideA.mrxs''"
    by (simp add: sample_rows_T)
  show ?thesis
    by (intro conjI) (fact sample_result_T e1 x1 b a)+
qed

subsection \<open>Failures of one slide\<close>

lemma slides_loop_append:
  "slides_loop fs slide_dir level dims label (xs @ ys) acc warned =
     (case slides_loop fs slide_dir level dims label xs acc warned of
        (warned', Inl e) \<Rightarrow> (warned', Inl e)
      | (warned', Inr acc') \<Rightarrow> slides_loop fs slide_dir level dims label ys acc' warned')"
proof (induction xs arbitrary: acc warned)
  case Nil
  then show ?case by simp
next
  case (Cons entry xs)
  obtain name folder where "entry = (name, folder)"
    by (cases entry)
  with Cons.IH show ?case
    by (simp split: option.splits)
qed

lemma slides_loop_skip:
  assumes "snd (try_block fs slide_dir level dims label name folder acc) = Some e"
    and "caught e"
  shows "slides_loop fs slide_dir level dims label ((name, folder) # entries) acc warned =
         slides_loop fs slide_dir level dims label entries acc (warned @ [str e])"
  using assms try_block_error_unchanged [OF assms(1)] by simp

lemma list_patches_walked:
  assumes "fst (get_patch_folders_in_project fs (project_folder self) default_exclude) \<noteq> []"
  shows "list_patches fs self level dims label =
           slides_loop fs (slide_folder self) level dims label
             (fst (get_patch_folders_in_project fs (project_folder self) default_exclude))
             ([], []) []"
proof -
  from assms have "snd (get_patch_folders_in_project fs (project_folder self) default_exclude)
                     = None"
    by (auto simp: get_patch_folders_in_project_def split: if_splits)
  then show ?thesis
    by (simp add: list_patches_def split: prod.splits sum.splits)
qed

text \<open>
  Claim C1. When, for a slide entry, the slide file lookup, the patch table lookup or the
  extraction raises \<open>SlideNotFoundError\<close>, \<open>PatchesNotFoundError\<close> or \<open>UnknownColumnError\<close>,
  the loop of \<open>list_patches\<close> adds the message of the exception to the warnings, which
  from then on begin with the earlier warnings followed by this message; it appends nothing
  for the entry and goes on with the remaining entries. If the loop then ends normally,
  the lists it returns are the lists reached before the entry followed by the descriptors
  and labels of the rows of the remaining entries, and the warnings are the earlier ones,
  this message and those of the remaining entries. If it ends with an exception, that is
  one the \<open>except\<close> clause does not catch, raised for a later entry. The same holds of
  \<open>list_patches\<close> when the walker yields the entries \<open>before\<close>, then this entry, then
  \<open>entries\<close>, and the entries before it leave the loop running.
\<close>

theorem slide_failure_skipped:
  assumes "get_slide_file fs slide_dir name = Inl e
         \<or> (\<exists>slide_path. get_slide_file fs slide_dir name = Inr slide_path
               \<and> get_patch_csv_from_patch_folder fs folder = Inl e)
         \<or> (\<exists>slide_path patch_file. get_slide_file fs slide_dir name = Inr slide_path
               \<and> get_patch_csv_from_patch_folder fs folder = Inr patch_file
               \<and> snd (handle_labeled_patches fs patch_file level label) = Some e)"
    and "e = SlideNotFoundError m \<or> e = PatchesNotFoundError m \<or> e = UnknownColumnError m"
  shows "prefix (warned @ [m])
           (fst (slides_loop fs slide_dir level dims label ((name, folder) # entries)
                   (patch_list, labels) warned))
       \<and> slides_loop fs slide_dir level dims label ((name, folder) # entries)
           (patch_list, labels) warned =
         slides_loop fs slide_dir level dims label entries (patch_list, labels) (warned @ [m])
       \<and> spec_slide_rows fs slide_dir level label (name, folder) = []
       \<and> (\<forall>warned' patch_list' labels'.
            slides_loop fs slide_dir level dims label ((name, folder) # entries)
              (patch_list, labels) warned = (warned', Inr (patch_list', labels')) \<longrightarrow>
            warned' = warned @ [m]
                        @ concat (map (spec_slide_warnings fs slide_dir level label) entries)
          \<and> patch_list' = patch_list @ map (spec_descriptor level dims)
                 (concat (map (spec_slide_rows fs slide_dir level label) entries))
          \<and> labels' = labels @ map (spec_label label)
                 (concat (map (spec_slide_rows fs slide_dir level label) entries)))
       \<and> (\<forall>warned' e'.
            slides_loop fs slide_dir level dims label ((name, folder) # entries)
              (patch_list, labels) warned = (warned', Inl e') \<longrightarrow>
            \<not> caught e' \<and> ((\<exists>k. e' = KeyError k) \<or> (\<exists>k. e' = ExternalError k)))
       \<and> (slide_dir = slide_folder self
          \<and> fst (get_patch_folders_in_project fs (project_folder self) default_exclude) =
              before @ (name, folder) # entries
          \<and> slides_loop fs slide_dir level dims label before ([], []) [] =
              (warned, Inr (patch_list, labels))
          \<longrightarrow> list_patches fs self level dims label =
                slides_loop fs slide_dir level dims label ((name, folder) # entries)
                  (patch_list, labels) warned
            \<and> prefix (warned @ [m]) (fst (list_patches fs self level dims label))
            \<and> m \<in> set (fst (list_patches fs self level dims label)))"
proof -
  let ?loop = "slides_loop fs slide_dir level dims label ((name, folder) # entries)
                 (patch_list, labels) warned"
  let ?rest = "slides_loop fs slide_dir level dims label entries (patch_list, labels)
                 (warned @ [m])"
  have tb: "snd (try_block fs slide_dir level dims label name folder acc) = Some e" for acc
    using assms(1) by (auto simp: try_block_def)
  have c: "caught e" and s: "str e = m"
    using assms(2) by auto
  have step: "slides_loop fs slide_dir level dims label ((name, folder) # entries) acc w =
         slides_loop fs slide_dir level dims label entries acc (w @ [m])" for acc w
    using slides_loop_skip [OF tb c] s by simp
  have eq: "?loop = ?rest"
    by (rule step)
  have pre: "prefix (warned @ [m]) (fst ?loop)"
    unfolding eq by (rule slides_loop_prefix)
  have none: "spec_slide_rows fs slide_dir level label (name, folder) = []"
    using tb c by (rule try_block_caught_rows)
  have ok: "\<forall>warned' patch_list' labels'.
            ?loop = (warned', Inr (patch_list', labels')) \<longrightarrow>
            warned' = warned @ [m]
                        @ concat (map (spec_slide_warnings fs slide_dir level label) entries)
          \<and> patch_list' = patch_list @ map (spec_descriptor level dims)
                 (concat (map (spec_slide_rows fs slide_dir level label) entries))
          \<and> labels' = labels @ map (spec_label label)
                 (concat (map (spec_slide_rows fs slide_dir level label) entries))"
  proof (intro allI impI)
    fix warned' patch_list' labels'
    assume "?loop = (warned', Inr (patch_list', labels'))"
    then have "?rest = (warned', Inr (patch_list', labels'))"
      by (simp only: eq)
    from slides_loop_ok [OF this]
    show "warned' = warned @ [m]
                        @ concat (map (spec_slide_warnings fs slide_dir level label) entries)
          \<and> patch_list' = patch_list @ map (spec_descriptor level dims)
                 (concat (map (spec_slide_rows fs slide_dir level label) entries))
          \<and> labels' = labels @ map (spec_label label)
                 (concat (map (spec_slide_rows fs slide_dir level label) entries))"
      by simp
  qed
  have err: "\<forall>warned' e'. ?loop = (warned', Inl e') \<longrightarrow>
            \<not> caught e' \<and> ((\<exists>k. e' = KeyError k) \<or> (\<exists>k. e' = ExternalError k))"
  proof (intro allI impI)
    fix warned' e'
    assume "?loop = (warned', Inl e')"
    from slides_loop_error_kind [OF this]
    show "\<not> caught e' \<and> ((\<exists>k. e' = KeyError k) \<or> (\<exists>k. e' = ExternalError k))"
      by auto
  qed
  have whole: "list_patches fs self level dims label = ?loop
            \<and> prefix (warned @ [m]) (fst (list_patches fs self level dims label))
            \<and> m \<in> set (fst (list_patches fs self level dims label))"
    if "slide_dir = slide_folder self
          \<and> fst (get_patch_folders_in_project fs (project_folder self) default_exclude) =
              before @ (name, folder) # entries
          \<and> slides_loop fs slide_dir level dims label before ([], []) [] =
              (warned, Inr (patch_list, labels))"
  proof -
    from that have sd: "slide_folder self = slide_dir"
      and en: "fst (get_patch_folders_in_project fs (project_folder self) default_exclude) =
              before @ (name, folder) # entries"
      and bf: "slides_loop fs slide_dir level dims label before ([], []) [] =
              (warned, Inr (patch_list, labels))"
      by blast+
    from en have ne: "fst (get_patch_folders_in_project fs (project_folder self)
                              default_exclude) \<noteq> []"
      by simp
    have l: "list_patches fs self level dims label = ?loop"
      by (simp add: list_patches_walked [OF ne] sd en slides_loop_append bf
            del: slides_loop.simps)
    from pre have p: "prefix (warned @ [m]) (fst (list_patches fs self level dims label))"
      by (simp only: l)
    then have "set (warned @ [m]) \<subseteq> set (fst (list_patches fs self level dims label))"
      by (rule set_mono_prefix)
    then have "m \<in> set (fst (list_patches fs self level dims label))"
      by simp
    with l p show ?thesis by blast
  qed
  from pre eq none ok err whole show ?thesis by blast
qed

theorem slide_failure_skipped_witness:
  "(\<exists>slide_path. get_slide_file sample_fs ''S'' ''slideB'' = Inr slide_path
       \<and> get_patch_csv_from_patch_folder sample_fs ''P/slideB'' =
           Inl (PatchesNotFoundError ''Could not find extracted patches for the slide: P/slideB''))
   \<and> ''S'' = slide_folder sample_handler
   \<and> fst (get_patch_folders_in_project sample_fs (project_folder sample_handler)
            default_exclude) = [] @ (''slideB'', ''P/slideB'') # [(''slideA'', ''P/slideA'')]
   \<and> slides_loop sample_fs ''S'' 0 (256, 256) ''tumor'' [] ([], []) [] = ([], Inr ([], []))
   \<and> prefix ([] @ [''Could not find extracted patches for the slide: P/slideB''])
         (fst (list_patches sample_fs sample_handler 0 (256, 256) ''tumor''))
   \<and> ''Could not find extracted patches for the slide: P/slideB''
         \<in> set (fst (list_patches sample_fs sample_handler 0 (256, 256) ''tumor''))
   \<and> list_patches sample_fs sample_handler 0 (256, 256) ''tumor'' =
       ([''Could not find extracted patches for the slide: P/slideB''],
        Inr ([\<lparr>p_slide = ''S/slideA.mrxs'', p_x = IntCell 1, p_y = IntCell 2,
                p_level = 0, p_dimensions = (256, 256)\<rparr>], [StrCell ''yes'']))"
proof -
  have a: "\<exists>slide_path. get_slide_file sample_fs ''S'' ''slideB'' = Inr slide_path
       \<and> get_patch_csv_from_patch_folder sample_fs ''P/slideB'' =
           Inl (PatchesNotFoundError ''Could not find extracted patches for the slide: P/slideB'')"
    by (simp add: model_simps sample_simps string_simps)
  have b: "''S'' = slide_folder sample_handler"
    by (simp add: sample_simps)
  have w: "fst (get_patch_folders_in_project sample_fs (project_folder sample_handler)
            default_exclude) = [] @ (''slideB'', ''P/slideB'') # [(''slideA'', ''P/slideA'')]"
    by (simp add: model_simps sample_simps string_simps)
  have l: "slides_loop sample_fs ''S'' 0 (256, 256) ''tumor'' [] ([], []) [] = ([], Inr ([], []))"
    by simp
  have f: "get_slide_file sample_fs ''S'' ''slideB'' =
             Inl (PatchesNotFoundError ''Could not find extracted patches for the slide: P/slideB'')
         \<or> (\<exists>slide_path. get_slide_file sample_fs ''S'' ''slideB'' = Inr slide_path
               \<and> get_patch_csv_from_patch_folder sample_fs ''P/slideB'' =
                   Inl (PatchesNotFoundError
                          ''Could not find extracted patches for the slide: P/slideB''))
         \<or> (\<exists>slide_path patch_file. get_slide_file sample_fs ''S'' ''slideB'' = Inr slide_path
               \<and> get_patch_csv_from_patch_folder sample_fs ''P/slideB'' = Inr patch_file
               \<and> snd (handle_labeled_patches sample_fs patch_file 0 ''tumor'') =
                   Some (PatchesNotFoundError
                          ''Could not find extracted patches for the slide: P/slideB''))"
    using a by (intro disjI2 disjI1)
  have k: "PatchesNotFoundError ''Could not find extracted patches for the slide: P/slideB'' =
             SlideNotFoundError ''Could not find extracted patches for the slide: P/slideB''
         \<or> PatchesNotFoundError ''Could not find extracted patches for the slide: P/slideB'' =
             PatchesNotFoundError ''Could not find extracted patches for the slide: P/slideB''
         \<or> PatchesNotFoundError ''Could not find extracted patches for the slide: P/slideB'' =
             UnknownColumnError ''Could not find extracted patches for the slide: P/slideB''"
    by (intro disjI2 disjI1) (rule refl)
  note th = slide_failure_skipped [OF f k, where warned = "[]" and dims = "(256, 256)"
      and entries = "[(''slideA'', ''P/slideA'')]" and patch_list = "[]" and labels = "[]"
      and self = sample_handler and before = "[]"]
  note last = conjunct2 [OF conjunct2 [OF conjunct2 [OF conjunct2 [OF conjunct2 [OF th]]]]]
  note res = mp [OF last conjI [OF b conjI [OF w l]]]
  have p: "prefix ([] @ [''Could not find extracted patches for the slide: P/slideB''])
         (fst (list_patches sample_fs sample_handler 0 (256, 256) ''tumor''))"
    by (rule conjunct1 [OF conjunct2 [OF res]])
  have i: "''Could not find extracted patches for the slide: P/slideB''
         \<in> set (fst (list_patches sample_fs sample_handler 0 (256, 256) ''tumor''))"
    by (rule conjunct2 [OF conjunct2 [OF res]])
  show ?thesis
    by (intro conjI) (fact a b w l p i sample_result_P)+
qed

subsection \<open>The project folder\<close>

text \<open>
  Claim C4. When the project folder is not a directory, the walker raises
  \<open>EmptyProjectError\<close> before it yields an entry, and \<open>list_patches\<close> ends with that
  exception: it returns no pair of lists, it has issued no warning, and its \<open>except\<close>
  clause does not catch the class.
\<close>

theorem empty_project_propagates:
  assumes "\<not> os_path_isdir fs (project_folder self)"
  shows "list_patches fs self level dims label =
           ([], Inl (EmptyProjectError
                  (''Did not find any project at: '' @ project_folder self)))
       \<and> get_patch_folders_in_project fs (project_folder self) exclude =
           ([], Some (EmptyProjectError
                  (''Did not find any project at: '' @ project_folder self)))
       \<and> \<not> caught (EmptyProjectError m)
       \<and> (\<forall>result. snd (list_patches fs self level dims label) \<noteq> Inr result)"
  using assms by (simp add: list_patches_def walker_no_project)

theorem empty_project_propagates_witness:
  "\<not> os_path_isdir sample_fs (project_folder (sample_handler\<lparr>project_folder := ''P/notes.txt''\<rparr>))
   \<and> list_patches sample_fs (sample_handler\<lparr>project_folder := ''P/notes.txt''\<rparr>) 0 (256, 256)
        ''tumor'' =
       ([], Inl (EmptyProjectError ''Did not find any project at: P/notes.txt''))"
proof -
  have n: "\<not> os_path_isdir sample_fs
              (project_folder (sample_handler\<lparr>project_folder := ''P/notes.txt''\<rparr>))"
    by (simp add: sample_simps)
  from empty_project_propagates [OF n, of 0 "(256, 256)" "''tumor''"] n
  show ?thesis by simp
qed

text \<open>
  Claim C9. When the project folder is a directory and every entry of its listing is not
  a directory or has a name that contains a term of the default exclude list (so also when
  the listing is empty), \<open>list_patches\<close> returns two empty lists, raises nothing and warns
  of nothing.
\<close>

theorem no_entries_empty_dataset:
  assumes "os_path_isdir fs (project_folder self)"
    and "\<forall>name\<in>set (os_listdir fs (project_folder self)).
           \<not> os_path_isdir fs (os_path_join (project_folder self) name)
         \<or> (\<exists>ex\<in>set default_exclude. str_in ex name)"
  shows "list_patches fs self level dims label = ([], Inr ([], []))"
proof -
  from assms(2)
  have "filter (\<lambda>name. (\<forall>ex\<in>set default_exclude. \<not> str_in ex name)
                        \<and> os_path_isdir fs (os_path_join (project_folder self) name))
           (os_listdir fs (project_folder self)) = []"
    by (auto simp: filter_empty_conv)
  with assms(1)
  have "get_patch_folders_in_project fs (project_folder self) default_exclude = ([], None)"
    by (simp add: walker_entries)
  then show ?thesis
    by (simp add: list_patches_def)
qed

theorem no_entries_empty_dataset_witness:
  "os_path_isdir sample_fs (project_folder (sample_handler\<lparr>project_folder := ''E''\<rparr>))
   \<and> os_listdir sample_fs ''E'' = [''annotation_1'', ''notes.txt'']
   \<and> str_in ''annotation'' ''annotation_1''
   \<and> \<not> os_path_isdir sample_fs (os_path_join ''E'' ''notes.txt'')
   \<and> list_patches sample_fs (sample_handler\<lparr>project_folder := ''E''\<rparr>) 0 (256, 256) ''tumor''
       = ([], Inr ([], []))"
proof -
  have d: "os_path_isdir sample_fs (project_folder (sample_handler\<lparr>project_folder := ''E''\<rparr>))"
    by (simp add: sample_simps)
  have l: "os_listdir sample_fs ''E'' = [''annotation_1'', ''notes.txt'']"
    by (simp add: sample_simps)
  have x: "str_in ''annotation'' ''annotation_1''"
    by (simp add: string_simps)
  have n: "\<not> os_path_isdir sample_fs (os_path_join ''E'' ''notes.txt'')"
    by (simp add: sample_simps string_simps)
  have a: "\<forall>name\<in>set (os_listdir sample_fs
                      (project_folder (sample_handler\<lparr>project_folder := ''E''\<rparr>))).
           \<not> os_path_isdir sample_fs
               (os_path_join (project_folder (sample_handler\<lparr>project_folder := ''E''\<rparr>)) name)
         \<or> (\<exists>ex\<in>set default_exclude. str_in ex name)"
    using x n by (simp add: l sample_handler_def default_exclude_def)
  from no_entries_empty_dataset [OF d a, of 0 "(256, 256)" "''tumor''"] d l x n
  show ?thesis by blast
qed

subsection \<open>What the outcome depends on\<close>

lemma get_slide_file_cong:
  assumes "os_path_isdir fs' folder = os_path_isdir fs folder"
    and "os_listdir fs' folder = os_listdir fs folder"
  shows "get_slide_file fs' folder name = get_slide_file fs folder name"
  using assms by (simp add: get_slide_file_def)

lemma get_patch_csv_cong:
  assumes "os_path_isdir fs' folder = os_path_isdir fs folder"
    and "os_path_exists fs' (os_path_join folder ''patches.csv'') =
         os_path_exists fs (os_path_join folder ''patches.csv'')"
  shows "get_patch_csv_from_patch_folder fs' folder = get_patch_csv_from_patch_folder fs folder"
  using assms by (simp add: get_patch_csv_from_patch_folder_def)

lemma get_patch_csv_path:
  "get_patch_csv_from_patch_folder fs folder = Inr patch_file \<Longrightarrow>
   patch_file = os_path_join folder ''patches.csv''"
  by (auto simp: get_patch_csv_from_patch_folder_def Let_def split: if_splits)

lemma try_block_cong:
  assumes "get_slide_file fs' slide_dir name = get_slide_file fs slide_dir name"
    and "os_path_isdir fs' folder = os_path_isdir fs folder"
    and "os_path_exists fs' (os_path_join folder ''patches.csv'') =
         os_path_exists fs (os_path_join folder ''patches.csv'')"
    and "pd_read_csv fs' (os_path_join folder ''patches.csv'') =
         pd_read_csv fs (os_path_join folder ''patches.csv'')"
  shows "try_block fs' slide_dir level dims label name folder acc =
         try_block fs slide_dir level dims label name folder acc"
proof -
  have c: "get_patch_csv_from_patch_folder fs' folder = get_patch_csv_from_patch_folder fs folder"
    using assms(2,3) by (rule get_patch_csv_cong)
  have h: "handle_labeled_patches fs' patch_file level label =
           handle_labeled_patches fs patch_file level label"
    if "get_patch_csv_from_patch_folder fs folder = Inr patch_file" for patch_file
    using get_patch_csv_path [OF that] assms(4) by (simp add: handle_labeled_patches_def)
  show ?thesis
    using assms(1) c h by (simp add: try_block_def split: sum.splits)
qed

lemma slides_loop_cong:
  assumes "\<forall>entry\<in>set entries. \<forall>acc.
             try_block fs' slide_dir level dims label (fst entry) (snd entry) acc =
             try_block fs slide_dir level dims label (fst entry) (snd entry) acc"
  shows "slides_loop fs' slide_dir level dims label entries acc warned =
         slides_loop fs slide_dir level dims label entries acc warned"
  using assms
proof (induction entries arbitrary: acc warned)
  case Nil
  then show ?case by simp
next
  case (Cons entry entries)
  obtain name folder where e: "entry = (name, folder)"
    by (cases entry)
  from Cons.prems e
  have tb: "try_block fs' slide_dir level dims label name folder acc =
            try_block fs slide_dir level dims label name folder acc"
    by (cases acc) simp
  from Cons.prems have "\<forall>entry\<in>set entries. \<forall>acc.
             try_block fs' slide_dir level dims label (fst entry) (snd entry) acc =
             try_block fs slide_dir level dims label (fst entry) (snd entry) acc"
    by simp
  from Cons.IH [OF this] e show ?case
    by (simp add: tb split: option.splits)
qed

lemma list_patches_depends:
  assumes p: "os_path_isdir fs' (project_folder self) = os_path_isdir fs (project_folder self)"
    and pl: "os_listdir fs' (project_folder self) = os_listdir fs (project_folder self)"
    and s: "os_path_isdir fs' (slide_folder self) = os_path_isdir fs (slide_folder self)"
    and sl: "os_listdir fs' (slide_folder self) = os_listdir fs (slide_folder self)"
    and kept: "\<forall>n\<in>set (os_listdir fs (project_folder self)). \<not> str_in ''annotation'' n \<longrightarrow>
           os_path_isdir fs' (os_path_join (project_folder self) n) =
             os_path_isdir fs (os_path_join (project_folder self) n)
         \<and> os_path_exists fs' (os_path_join (os_path_join (project_folder self) n) ''patches.csv'') =
             os_path_exists fs (os_path_join (os_path_join (project_folder self) n) ''patches.csv'')
         \<and> pd_read_csv fs' (os_path_join (os_path_join (project_folder self) n) ''patches.csv'') =
             pd_read_csv fs (os_path_join (os_path_join (project_folder self) n) ''patches.csv'')"
  shows "list_patches fs' self level dims label = list_patches fs self level dims label"
proof -
  have w: "get_patch_folders_in_project fs' (project_folder self) default_exclude =
           get_patch_folders_in_project fs (project_folder self) default_exclude"
  proof (cases "os_path_isdir fs (project_folder self)")
    case True
    have "filter (\<lambda>name. (\<forall>ex\<in>set default_exclude. \<not> str_in ex name)
                        \<and> os_path_isdir fs' (os_path_join (project_folder self) name))
            (os_listdir fs (project_folder self)) =
          filter (\<lambda>name. (\<forall>ex\<in>set default_exclude. \<not> str_in ex name)
                        \<and> os_path_isdir fs (os_path_join (project_folder self) name))
            (os_listdir fs (project_folder self))"
      using kept by (intro filter_cong) (auto simp: default_exclude_def)
    with True p pl show ?thesis by (simp add: walker_entries)
  next
    case False
    with p show ?thesis by (simp add: walker_no_project)
  qed
  have "\<forall>entry\<in>set (fst (get_patch_folders_in_project fs (project_folder self) default_exclude)).
          \<forall>acc. try_block fs' (slide_folder self) level dims label (fst entry) (snd entry) acc =
                 try_block fs (slide_folder self) level dims label (fst entry) (snd entry) acc"
  proof (intro ballI allI)
    fix entry acc
    assume m: "entry \<in> set (fst (get_patch_folders_in_project fs (project_folder self)
                                    default_exclude))"
    obtain name folder where e: "entry = (name, folder)"
      by (cases entry)
    from walker_member [of name folder fs "project_folder self" default_exclude] m e
    have n: "name \<in> set (os_listdir fs (project_folder self))"
      and f: "folder = os_path_join (project_folder self) name"
      and x: "\<not> str_in ''annotation'' name"
      by (simp_all add: default_exclude_def)
    from kept n x f have k: "os_path_isdir fs' folder = os_path_isdir fs folder"
        "os_path_exists fs' (os_path_join folder ''patches.csv'') =
           os_path_exists fs (os_path_join folder ''patches.csv'')"
        "pd_read_csv fs' (os_path_join folder ''patches.csv'') =
           pd_read_csv fs (os_path_join folder ''patches.csv'')"
      by blast+
    have g: "get_slide_file fs' (slide_folder self) name = get_slide_file fs (slide_folder self) name"
      using s sl by (rule get_slide_file_cong)
    from try_block_cong [OF g k] e
    show "try_block fs' (slide_folder self) level dims label (fst entry) (snd entry) acc =
          try_block fs (slide_folder self) level dims label (fst entry) (snd entry) acc"
      by simp
  qed
  from slides_loop_cong [OF this]
  have l: "slides_loop fs' (slide_folder self) level dims label
             (fst (get_patch_folders_in_project fs (project_folder self) default_exclude))
             ([], []) [] =
           slides_loop fs (slide_folder self) level dims label
             (fst (get_patch_folders_in_project fs (project_folder self) default_exclude))
             ([], []) []"
    by blast
  show ?thesis
    by (simp only: list_patches_def w l)
qed

text \<open>
  Claim C5. The walker yields, in listing order, the entries of the project folder that
  are directories and whose name contains no term of the exclude list. So an entry whose
  name contains an exclude term is never yielded, and neither is an entry that is not a
  directory; \<open>contains\<close> is the occurrence of the term as a block of characters anywhere in
  the name, character for character. Every descriptor \<open>list_patches\<close> returns comes from
  an entry the walker yields, whose name holds no \<open>annotation\<close>. And the outcome of
  \<open>list_patches\<close> is the same on two file systems that agree on the listings of the
  project and slide folders and, for the entries without \<open>annotation\<close> in the name, on
  the folder and its table: what an excluded folder is or holds changes nothing.
\<close>

theorem excluded_never_yielded:
  "(os_path_isdir fs project \<longrightarrow>
      get_patch_folders_in_project fs project exclude =
        (map (\<lambda>name. (name, os_path_join project name))
           (filter (\<lambda>name. (\<forall>ex\<in>set exclude. \<not> str_in ex name)
                           \<and> os_path_isdir fs (os_path_join project name))
              (os_listdir fs project)), None))
   \<and> ((\<exists>ex\<in>set exclude. str_in ex name) \<longrightarrow>
         (name, folder) \<notin> set (fst (get_patch_folders_in_project fs project exclude)))
   \<and> (\<not> os_path_isdir fs (os_path_join project name) \<longrightarrow>
         (name, folder) \<notin> set (fst (get_patch_folders_in_project fs project exclude)))
   \<and> (str_in ex name \<longleftrightarrow> (\<exists>before after. name = before @ ex @ after))
   \<and> (list_patches fs self level dims label = (warned, Inr (patch_list, labels))
        \<and> p \<in> set patch_list \<longrightarrow>
         (\<exists>n f. (n, f) \<in> set (fst (get_patch_folders_in_project fs (project_folder self)
                                       default_exclude))
               \<and> \<not> str_in ''annotation'' n
               \<and> get_slide_file fs (slide_folder self) n = Inr (p_slide p)))
   \<and> (os_path_isdir fs' (project_folder self) = os_path_isdir fs (project_folder self)
        \<and> os_listdir fs' (project_folder self) = os_listdir fs (project_folder self)
        \<and> os_path_isdir fs' (slide_folder self) = os_path_isdir fs (slide_folder self)
        \<and> os_listdir fs' (slide_folder self) = os_listdir fs (slide_folder self)
        \<and> (\<forall>n\<in>set (os_listdir fs (project_folder self)). \<not> str_in ''annotation'' n \<longrightarrow>
               os_path_isdir fs' (os_path_join (project_folder self) n) =
                 os_path_isdir fs (os_path_join (project_folder self) n)
             \<and> os_path_exists fs'
                   (os_path_join (os_path_join (project_folder self) n) ''patches.csv'') =
                 os_path_exists fs
                   (os_path_join (os_path_join (project_folder self) n) ''patches.csv'')
             \<and> pd_read_csv fs'
                   (os_path_join (os_path_join (project_folder self) n) ''patches.csv'') =
                 pd_read_csv fs
                   (os_path_join (os_path_join (project_folder self) n) ''patches.csv''))
        \<longrightarrow> list_patches fs' self level dims label = list_patches fs self level dims label)"
proof (intro conjI impI)
  assume "os_path_isdir fs project"
  then show "get_patch_folders_in_project fs project exclude =
        (map (\<lambda>name. (name, os_path_join project name))
           (filter (\<lambda>name. (\<forall>ex\<in>set exclude. \<not> str_in ex name)
                           \<and> os_path_isdir fs (os_path_join project name))
              (os_listdir fs project)), None)"
    by (rule walker_entries)
next
  assume "\<exists>ex\<in>set exclude. str_in ex name"
  with walker_member [of name folder fs project exclude]
  show "(name, folder) \<notin> set (fst (get_patch_folders_in_project fs project exclude))"
    by blast
next
  assume "\<not> os_path_isdir fs (os_path_join project name)"
  with walker_member [of name folder fs project exclude]
  show "(name, folder) \<notin> set (fst (get_patch_folders_in_project fs project exclude))"
    by blast
next
  show "str_in ex name \<longleftrightarrow> (\<exists>before after. name = before @ ex @ after)"
    by (simp add: str_in_def sublist_def)
next
  assume a: "list_patches fs self level dims label = (warned, Inr (patch_list, labels))
        \<and> p \<in> set patch_list"
  then obtain sr where sr: "sr \<in> set (spec_dataset_rows fs self level label)"
      and p: "p = spec_descriptor level dims sr"
    using list_patches_ok [of fs self level dims label warned patch_list labels] by auto
  obtain n f where nf: "src_entry sr = (n, f)"
    by (cases "src_entry sr")
  from spec_dataset_rows_member [OF sr] nf
  have m: "(n, f) \<in> set (fst (get_patch_folders_in_project fs (project_folder self)
                                       default_exclude))"
    and g: "get_slide_file fs (slide_folder self) n = Inr (src_slide sr)"
    by simp_all
  from walker_member [OF m] have "\<not> str_in ''annotation'' n"
    by (simp add: default_exclude_def)
  with m g p show "\<exists>n f. (n, f) \<in> set (fst (get_patch_folders_in_project fs (project_folder self)
                                       default_exclude))
               \<and> \<not> str_in ''annotation'' n
               \<and> get_slide_file fs (slide_folder self) n = Inr (p_slide p)"
    by (auto simp: spec_descriptor_def)
next
  assume "os_path_isdir fs' (project_folder self) = os_path_isdir fs (project_folder self)
        \<and> os_listdir fs' (project_folder self) = os_listdir fs (project_folder self)
        \<and> os_path_isdir fs' (slide_folder self) = os_path_isdir fs (slide_folder self)
        \<and> os_listdir fs' (slide_folder self) = os_listdir fs (slide_folder self)
        \<and> (\<forall>n\<in>set (os_listdir fs (project_folder self)). \<not> str_in ''annotation'' n \<longrightarrow>
               os_path_isdir fs' (os_path_join (project_folder self) n) =
                 os_path_isdir fs (os_path_join (project_folder self) n)
             \<and> os_path_exists fs'
                   (os_path_join (os_path_join (project_folder self) n) ''patches.csv'') =
                 os_path_exists fs
                   (os_path_join (os_path_join (project_folder self) n) ''patches.csv'')
             \<and> pd_read_csv fs'
                   (os_path_join (os_path_join (project_folder self) n) ''patches.csv'') =
                 pd_read_csv fs
                   (os_path_join (os_path_join (project_folder self) n) ''patches.csv''))"
  then show "list_patches fs' self level dims label = list_patches fs self level dims label"
    by (intro list_patches_depends) blast+
qed

theorem excluded_never_yielded_witness:
  "os_path_isdir sample_fs ''P''
   \<and> get_patch_folders_in_project sample_fs ''P'' default_exclude =
       ([(''slideB'', ''P/slideB''), (''slideA'', ''P/slideA'')], None)
   \<and> (\<exists>ex\<in>set default_exclude. str_in ex ''annotation_notes'')
   \<and> os_path_isdir sample_fs ''P/annotation_notes''
   \<and> (''annotation_notes'', ''P/annotation_notes'')
        \<notin> set (fst (get_patch_folders_in_project sample_fs ''P'' default_exclude))
   \<and> \<not> os_path_isdir sample_fs (os_path_join ''P'' ''notes.txt'')
   \<and> (''notes.txt'', ''P/notes.txt'')
        \<notin> set (fst (get_patch_folders_in_project sample_fs ''P'' default_exclude))
   \<and> \<not> str_in ''annotation'' ''Annotation_notes''
   \<and> pd_read_csv sample_fs_annotated ''P/annotation_notes/patches.csv'' = Some tableA
   \<and> pd_read_csv sample_fs ''P/annotation_notes/patches.csv'' = None
   \<and> list_patches sample_fs_annotated sample_handler 0 (256, 256) ''tumor'' =
       list_patches sample_fs sample_handler 0 (256, 256) ''tumor''
   \<and> (\<exists>n f. (n, f) \<in> set (fst (get_patch_folders_in_project sample_fs
                                     (project_folder sample_handler) default_exclude))
            \<and> \<not> str_in ''annotation'' n
            \<and> get_slide_file sample_fs (slide_folder sample_handler) n = Inr ''S/slideA.mrxs'')"
proof -
  have d: "os_path_isdir sample_fs ''P''" and d2: "os_path_isdir sample_fs ''P/annotation_notes''"
    by (simp_all add: sample_simps)
  have l: "os_listdir sample_fs ''P'' = [''annotation_notes'', ''slideB'', ''notes.txt'', ''slideA'']"
    by (simp add: sample_simps)
  have i: "\<And>p. os_path_isdir sample_fs p =
        (p \<in> set [''P'', ''S'', ''P/slideA'', ''P/slideB'', ''P/annotation_notes'', ''Q'',
                   ''Q/slideA'', ''E'', ''E/annotation_1'', ''B'', ''B/slideA'',
                   ''T'', ''T/slideA'', ''T/slideB''])"
    by (simp add: sample_simps)
  have w: "get_patch_folders_in_project sample_fs ''P'' default_exclude =
       ([(''slideB'', ''P/slideB''), (''slideA'', ''P/slideA'')], None)"
    using excluded_never_yielded [of sample_fs "''P''" default_exclude] d
    by (simp add: l i string_simps default_exclude_def)
  have x: "\<exists>ex\<in>set default_exclude. str_in ex ''annotation_notes''"
    by (simp add: default_exclude_def string_simps)
  have n: "\<not> os_path_isdir sample_fs (os_path_join ''P'' ''notes.txt'')"
    by (simp add: sample_simps string_simps)
  have a: "(''annotation_notes'', ''P/annotation_notes'')
        \<notin> set (fst (get_patch_folders_in_project sample_fs ''P'' default_exclude))"
    using excluded_never_yielded [of sample_fs "''P''" default_exclude "''annotation_notes''"] x
    by blast
  have b: "(''notes.txt'', ''P/notes.txt'')
        \<notin> set (fst (get_patch_folders_in_project sample_fs ''P'' default_exclude))"
    using excluded_never_yielded [of sample_fs "''P''" default_exclude "''notes.txt''"] n
    by blast
  have c: "\<not> str_in ''annotation'' ''Annotation_notes''"
    by (simp add: string_simps)
  have r1: "pd_read_csv sample_fs_annotated ''P/annotation_notes/patches.csv'' = Some tableA"
    and r2: "pd_read_csv sample_fs ''P/annotation_notes/patches.csv'' = None"
    by (simp_all add: sample_fs_annotated_def sample_fs_def)
  have pf: "project_folder sample_handler = ''P''" and sf: "slide_folder sample_handler = ''S''"
    by (simp_all add: sample_handler_def)
  have k: "\<forall>n\<in>set (os_listdir sample_fs (project_folder sample_handler)).
             \<not> str_in ''annotation'' n \<longrightarrow>
               os_path_isdir sample_fs_annotated (os_path_join (project_folder sample_handler) n) =
                 os_path_isdir sample_fs (os_path_join (project_folder sample_handler) n)
             \<and> os_path_exists sample_fs_annotated
                   (os_path_join (os_path_join (project_folder sample_handler) n) ''patches.csv'') =
                 os_path_exists sample_fs
                   (os_path_join (os_path_join (project_folder sample_handler) n) ''patches.csv'')
             \<and> pd_read_csv sample_fs_annotated
                   (os_path_join (os_path_join (project_folder sample_handler) n) ''patches.csv'') =
                 pd_read_csv sample_fs
                   (os_path_join (os_path_join (project_folder sample_handler) n) ''patches.csv'')"
    by (simp add: pf l sample_fs_annotated_def string_simps)
  have o: "os_path_isdir sample_fs_annotated (project_folder sample_handler) =
             os_path_isdir sample_fs (project_folder sample_handler)
        \<and> os_listdir sample_fs_annotated (project_folder sample_handler) =
             os_listdir sample_fs (project_folder sample_handler)
        \<and> os_path_isdir sample_fs_annotated (slide_folder sample_handler) =
             os_path_isdir sample_fs (slide_folder sample_handler)
        \<and> os_listdir sample_fs_annotated (slide_folder sample_handler) =
             os_listdir sample_fs (slide_folder sample_handler)"
    by (simp add: sample_fs_annotated_def)
  note t = excluded_never_yielded [of sample_fs "''P''" default_exclude "''notes.txt''"
      "''P/notes.txt''" "''annotation''" sample_handler 0 "(256, 256)" "''tumor''"
      "[''Could not find extracted patches for the slide: P/slideB'']"
      "[\<lparr>p_slide = ''S/slideA.mrxs'', p_x = IntCell 1, p_y = IntCell 2,
               p_level = 0, p_dimensions = (256, 256)\<rparr>]" "[StrCell ''yes'']"
      "\<lparr>p_slide = ''S/slideA.mrxs'', p_x = IntCell 1, p_y = IntCell 2,
               p_level = 0, p_dimensions = (256, 256)\<rparr>" sample_fs_annotated]
  note t5 = conjunct1 [OF conjunct2 [OF conjunct2 [OF conjunct2 [OF conjunct2 [OF t]]]]]
  note t6 = conjunct2 [OF conjunct2 [OF conjunct2 [OF conjunct2 [OF conjunct2 [OF t]]]]]
  have e: "list_patches sample_fs_annotated sample_handler 0 (256, 256) ''tumor'' =
       list_patches sample_fs sample_handler 0 (256, 256) ''tumor''"
    using t6 o k by blast
  have m: "\<lparr>p_slide = ''S/slideA.mrxs'', p_x = IntCell 1, p_y = IntCell 2,
       p_level = 0, p_dimensions = (256, 256)\<rparr>
       \<in> set [\<lparr>p_slide = ''S/slideA.mrxs'', p_x = IntCell 1, p_y = IntCell 2,
                 p_level = 0, p_dimensions = (256, 256)\<rparr>]"
    by simp
  have g: "\<exists>n f. (n, f) \<in> set (fst (get_patch_folders_in_project sample_fs
                                     (project_folder sample_handler) default_exclude))
            \<and> \<not> str_in ''annotation'' n
            \<and> get_slide_file sample_fs (slide_folder sample_handler) n = Inr ''S/slideA.mrxs''"
    using mp [OF t5 conjI [OF sample_result_P m]] by simp
  from d w x d2 a n b c r1 r2 e g show ?thesis by blast
qed

text \<open>
  Claim C10. On a table that has the \<open>level\<close> column and the label column, a queried level
  that no row has makes the extractor yield nothing and end without an exception. No
  operation of the module ends with \<open>LevelNotFoundError\<close>.
\<close>

theorem unmatched_level_yields_nothing:
  "(pd_read_csv fs patch_file = Some df
      \<and> ''level'' \<in> set (columns df) \<and> column \<in> set (columns df)
      \<and> (\<forall>row\<in>set (rows df). \<not> series_eq (dtypes df ''level'') (row ''level'') level)
     \<longrightarrow> handle_labeled_patches fs patch_file level column = ([], None))
   \<and> get_patch_csv_from_patch_folder fs folder \<noteq> Inl (LevelNotFoundError m)
   \<and> snd (get_patch_folders_in_project fs folder exclude) \<noteq> Some (LevelNotFoundError m)
   \<and> get_slide_file fs folder name \<noteq> Inl (LevelNotFoundError m)
   \<and> snd (handle_labeled_patches fs patch_file level column) \<noteq> Some (LevelNotFoundError m)
   \<and> snd (list_patches fs self level dims column) \<noteq> Inl (LevelNotFoundError m)"
proof (intro conjI impI)
  assume a: "pd_read_csv fs patch_file = Some df
      \<and> ''level'' \<in> set (columns df) \<and> column \<in> set (columns df)
      \<and> (\<forall>row\<in>set (rows df). \<not> series_eq (dtypes df ''level'') (row ''level'') level)"
  then have "filter (\<lambda>row. series_eq (dtypes df ''level'') (row ''level'') level) (rows df) = []"
    by (auto simp: filter_empty_conv)
  with a show "handle_labeled_patches fs patch_file level column = ([], None)"
    by (simp add: handle_labeled_patches_eq)
next
  show "get_patch_csv_from_patch_folder fs folder \<noteq> Inl (LevelNotFoundError m)"
    using get_patch_csv_error_kind [of fs folder "LevelNotFoundError m"] by auto
next
  show "snd (get_patch_folders_in_project fs folder exclude) \<noteq> Some (LevelNotFoundError m)"
    by (simp add: get_patch_folders_in_project_def)
next
  show "get_slide_file fs folder name \<noteq> Inl (LevelNotFoundError m)"
    using get_slide_file_error_kind [of fs folder name "LevelNotFoundError m"] by auto
next
  show "snd (handle_labeled_patches fs patch_file level column) \<noteq> Some (LevelNotFoundError m)"
    using handle_error_kind [of fs patch_file level column "LevelNotFoundError m"] by auto
next
  show "snd (list_patches fs self level dims column) \<noteq> Inl (LevelNotFoundError m)"
    using list_patches_error_kind [of fs self level dims column _ "LevelNotFoundError m"]
    by (cases "list_patches fs self level dims column") auto
qed

theorem unmatched_level_yields_nothing_witness:
  "pd_read_csv sample_fs ''P/slideA/patches.csv'' = Some tableA
   \<and> ''level'' \<in> set (columns tableA) \<and> ''tumor'' \<in> set (columns tableA)
   \<and> rows tableA = [row0, row1]
   \<and> \<not> series_eq (dtypes tableA ''level'') (row0 ''level'') 5
   \<and> \<not> series_eq (dtypes tableA ''level'') (row1 ''level'') 5
   \<and> handle_labeled_patches sample_fs ''P/slideA/patches.csv'' 5 ''tumor'' = ([], None)"
proof -
  have r: "pd_read_csv sample_fs ''P/slideA/patches.csv'' = Some tableA"
    by (simp add: sample_fs_def)
  have c: "''level'' \<in> set (columns tableA)" "''tumor'' \<in> set (columns tableA)"
    by (simp_all add: tableA_def)
  have t: "rows tableA = [row0, row1]"
    by (simp add: tableA_def)
  have l: "\<not> series_eq (dtypes tableA ''level'') (row0 ''level'') 5"
      "\<not> series_eq (dtypes tableA ''level'') (row1 ''level'') 5"
    by (simp_all add: row0_def row1_def mk_row_def)
  from l have a: "\<forall>row\<in>set (rows tableA).
                    \<not> series_eq (dtypes tableA ''level'') (row ''level'') 5"
    by (simp add: t)
  note th = unmatched_level_yields_nothing [where fs = sample_fs
      and patch_file = "''P/slideA/patches.csv''" and df = tableA and column = "''tumor''"
      and level = 5]
  from mp [OF conjunct1 [OF th] conjI [OF r conjI [OF c(1) conjI [OF c(2) a]]]]
  have h: "handle_labeled_patches sample_fs ''P/slideA/patches.csv'' 5 ''tumor'' = ([], None)" .
  show ?thesis
    by (intro conjI) (fact r c t l h)+
qed

end
